theory Spec2Isabelle
  imports Main "HOL-Library.Sublist"
begin

chapter \<open>The model\<close>

section \<open>Strings\<close>

text \<open>
  JavaScript strings are modelled as \<^typ>\<open>string\<close> (lists of 8-bit characters), so the
  development speaks about ASCII text: \<open>toLowerCase\<close> maps the letters \<open>A\<close>..\<open>Z\<close> and
  leaves every other character alone.
\<close>

definition upperLetters :: string where
  "upperLetters = ''ABCDEFGHIJKLMNOPQRSTUVWXYZ''"

definition lowerLetters :: string where
  "lowerLetters = ''abcdefghijklmnopqrstuvwxyz''"

definition digitChars :: string where
  "digitChars = ''0123456789''"

definition toLowerChar :: "char \<Rightarrow> char" where
  "toLowerChar c = (case map_of (zip upperLetters lowerLetters) c of Some l \<Rightarrow> l | None \<Rightarrow> c)"

definition toLowerCase :: "string \<Rightarrow> string" where
  "toLowerCase s = map toLowerChar s"

text \<open>\<open>s.startsWith(p)\<close> is \<^const>\<open>prefix\<close>; \<open>s.includes(p)\<close> scans every position.\<close>

fun includes_str :: "string \<Rightarrow> string \<Rightarrow> bool" where
  "includes_str [] p = (p = [])"
| "includes_str (c # cs) p = (prefix p (c # cs) \<or> includes_str cs p)"

text \<open>\<open>s.split(sep)\<close> for a one-character separator: never empty, keeps empty pieces.\<close>

fun splitOn :: "char \<Rightarrow> string \<Rightarrow> string list" where
  "splitOn sep [] = [[]]"
| "splitOn sep (c # cs) =
     (if c = sep then [] # splitOn sep cs
      else (case splitOn sep cs of [] \<Rightarrow> [[c]] | p # ps \<Rightarrow> (c # p) # ps))"

text \<open>\<open>xs.join(sep)\<close>.\<close>

fun joinWith :: "string \<Rightarrow> string list \<Rightarrow> string" where
  "joinWith sep [] = []"
| "joinWith sep [x] = x"
| "joinWith sep (x # y # ys) = x @ sep @ joinWith sep (y # ys)"

text \<open>\<open>xs.slice(-n)\<close>: the last \<open>n\<close> elements, all of them when there are fewer.\<close>

definition sliceLast :: "nat \<Rightarrow> 'a list \<Rightarrow> 'a list" where
  "sliceLast n xs = drop (length xs - n) xs"

text \<open>A number in a template literal: its decimal digits, with a sign when negative.\<close>

fun natToString :: "nat \<Rightarrow> string" where
  "natToString n =
     (if n < 10 then [digitChars ! n] else natToString (n div 10) @ [digitChars ! (n mod 10)])"

definition numberToString :: "int \<Rightarrow> string" where
  "numberToString i = (if i < 0 then CHR ''-'' # natToString (nat (- i)) else natToString (nat i))"

text \<open>\<open>name.replace(/\.zip$/i, '')\<close>: a trailing \<open>.zip\<close> in any letter case is cut off.\<close>

definition stripZipExt :: "string \<Rightarrow> string" where
  "stripZipExt n =
     (if 4 \<le> length n \<and> toLowerCase (drop (length n - 4) n) = ''.zip''
      then take (length n - 4) n else n)"

section \<open>Paths (\<open>path.posix\<close>)\<close>

text \<open>
  The functions of Node's \<open>path\<close> module that the routes call, for POSIX paths:
  \<open>normalize\<close> drops empty and \<open>.\<close> segments, lets \<open>..\<close> remove the segment before it
  (above the root of an absolute path it is dropped, in a relative path it is kept) and
  keeps a trailing separator; \<open>join\<close> normalizes its non-empty arguments joined by \<open>/\<close>.
\<close>

fun normalizeSegments :: "bool \<Rightarrow> string list \<Rightarrow> string list \<Rightarrow> string list" where
  "normalizeSegments allowAboveRoot res [] = res"
| "normalizeSegments allowAboveRoot res (s # ss) =
     (if s = [] \<or> s = ''.'' then normalizeSegments allowAboveRoot res ss
      else if s = ''..'' then
        (if res \<noteq> [] \<and> last res \<noteq> ''..'' then normalizeSegments allowAboveRoot (butlast res) ss
         else if allowAboveRoot then normalizeSegments allowAboveRoot (res @ [''..'']) ss
         else normalizeSegments allowAboveRoot res ss)
      else normalizeSegments allowAboveRoot (res @ [s]) ss)"

definition isAbsolute :: "string \<Rightarrow> bool" where
  "isAbsolute p = (p \<noteq> [] \<and> hd p = CHR ''/'')"

definition path_normalize :: "string \<Rightarrow> string" where
  "path_normalize p =
     (if p = [] then ''.''
      else
        let trailingSeparator = (last p = CHR ''/'');
            body = joinWith ''/'' (normalizeSegments (\<not> isAbsolute p) [] (splitOn CHR ''/'' p))
        in if body = [] then
             (if isAbsolute p then ''/'' else if trailingSeparator then ''./'' else ''.'')
           else (if isAbsolute p then ''/'' else []) @ body @ (if trailingSeparator then ''/'' else []))"

definition path_join :: "string \<Rightarrow> string \<Rightarrow> string" where
  "path_join a b =
     (if a = [] \<and> b = [] then ''.''
      else if a = [] then path_normalize b
      else if b = [] then path_normalize a
      else path_normalize (a @ ''/'' @ b))"

text \<open>
  \<open>path.dirname\<close> and \<open>path.basename\<close>: trailing separators are ignored, the root is its own
  parent, and a path without separator has the parent \<open>.\<close>.
\<close>

definition stripTrailingSeps :: "string \<Rightarrow> string" where
  "stripTrailingSeps p = rev (dropWhile (\<lambda>c. c = CHR ''/'') (rev p))"

definition path_basename :: "string \<Rightarrow> string" where
  "path_basename p = rev (takeWhile (\<lambda>c. c \<noteq> CHR ''/'') (rev (stripTrailingSeps p)))"

definition path_dirname :: "string \<Rightarrow> string" where
  "path_dirname p =
     (let q = stripTrailingSeps p;
          d = stripTrailingSeps (rev (dropWhile (\<lambda>c. c \<noteq> CHR ''/'') (rev q)))
      in if q = [] then (if p = [] then ''.'' else ''/'')
         else if d \<noteq> [] then d
         else if isAbsolute q then ''/'' else ''.'')"

text \<open>\<open>path.resolve(p)\<close> against the current directory \<open>cwd\<close>, without a trailing separator.\<close>

definition path_resolve :: "string \<Rightarrow> string \<Rightarrow> string" where
  "path_resolve cwd p =
     (let r = path_normalize (if isAbsolute p then p else cwd @ ''/'' @ p);
          s = stripTrailingSeps r
      in if s = [] then ''/'' else s)"

section \<open>Values, exceptions and the file system\<close>

text \<open>
  A value that the TypeScript types call \<open>string | null\<close> but that is read from parsed
  JSON at run time: \<open>null\<close> (or \<open>undefined\<close>), a string, or something else that is truthy
  (a number, an object).
\<close>

datatype jsval = JNull | JString string | JOther

definition truthy :: "jsval \<Rightarrow> bool" where
  "truthy v = (case v of JNull \<Rightarrow> False | JString s \<Rightarrow> s \<noteq> [] | JOther \<Rightarrow> True)"

text \<open>An optional string parameter is truthy when it is given and not empty.\<close>

definition truthyStr :: "string option \<Rightarrow> bool" where
  "truthyStr x = (case x of None \<Rightarrow> False | Some s \<Rightarrow> s \<noteq> [])"

text \<open>
  What a \<open>throw\<close> carries: an \<open>Error\<close> with its message, or any other value. A function
  that can throw returns \<open>thrown + 'a\<close>.
\<close>

datatype thrown = ErrorObj string | NonError

text \<open>
  The file system maps a path to a regular file with its content or to a directory with
  the names \<open>readdirSync\<close> lists, in its order; other kinds of entries are left out. A
  listed name whose path is unmapped stands for an entry that cannot be inspected (a
  dangling link): \<open>statSync\<close> throws on it.
\<close>

datatype fsnode = RegularFile string | Directory "string list"

type_synonym filesystem = "string \<Rightarrow> fsnode option"

definition existsSync :: "filesystem \<Rightarrow> string \<Rightarrow> bool" where
  "existsSync f p = (f p \<noteq> None)"

definition readdirSync :: "filesystem \<Rightarrow> string \<Rightarrow> thrown + string list" where
  "readdirSync f p =
     (case f p of
        Some (Directory names) \<Rightarrow> Inr names
      | Some (RegularFile c) \<Rightarrow> Inl (ErrorObj (''ENOTDIR: not a directory, scandir '' @ p))
      | None \<Rightarrow> Inl (ErrorObj (''ENOENT: no such file or directory, scandir '' @ p)))"

text \<open>\<open>statSync(p)\<close>, read through \<open>isDirectory()\<close> and \<open>isFile()\<close>.\<close>

definition statSync :: "filesystem \<Rightarrow> string \<Rightarrow> thrown + fsnode" where
  "statSync f p =
     (case f p of
        Some n \<Rightarrow> Inr n
      | None \<Rightarrow> Inl (ErrorObj (''ENOENT: no such file or directory, stat '' @ p)))"

definition isDirectory :: "fsnode \<Rightarrow> bool" where
  "isDirectory n = (case n of Directory names \<Rightarrow> True | RegularFile c \<Rightarrow> False)"

definition isFile :: "fsnode \<Rightarrow> bool" where
  "isFile n = (case n of RegularFile c \<Rightarrow> True | Directory names \<Rightarrow> False)"

section \<open>Repository metadata\<close>

text \<open>
  \<open>detectRepoMetadata\<close> (lines 177 to 239). Two things it reads are outside the sources
  and are parameters: \<open>packageName p\<close> is the \<open>name\<close> property of the JSON parsed from the
  file \<open>p\<close> (\<open>JNull\<close> when reading or parsing throws, which the function swallows), and
  \<open>git d\<close> is what the two \<open>git rev-parse\<close> commands print in \<open>d\<close>, trimmed.
\<close>

datatype gitResult = GitFailed | GitBranchOnly string | GitBranchCommit string string

record repoMetadata =
  md_repoName :: jsval
  md_gitBranch :: "string option"
  md_gitCommit :: "string option"

definition detectRepoMetadata ::
  "filesystem \<Rightarrow> (string \<Rightarrow> jsval) \<Rightarrow> (string \<Rightarrow> gitResult) \<Rightarrow> string \<Rightarrow> string option
    \<Rightarrow> repoMetadata" where
  "detectRepoMetadata f packageName git repoDir zipFileName =
     (let byZip = (if truthyStr zipFileName then JString (stripZipExt (the zipFileName)) else JNull);
          packageJsonPath = path_join repoDir ''package.json'';
          byPackage =
            (if \<not> truthy byZip \<and> existsSync f packageJsonPath \<and> truthy (packageName packageJsonPath)
             then packageName packageJsonPath else byZip);
          byDir = (if \<not> truthy byPackage then JString (path_basename repoDir) else byPackage);
          g = (if existsSync f (path_join repoDir ''.git'') then git repoDir else GitFailed)
      in \<lparr> md_repoName = byDir,
           md_gitBranch = (case g of GitFailed \<Rightarrow> None | GitBranchOnly b \<Rightarrow> Some b
                           | GitBranchCommit b c \<Rightarrow> Some b),
           md_gitCommit = (case g of GitBranchCommit b c \<Rightarrow> Some c | _ \<Rightarrow> None) \<rparr>)"

section \<open>The workspace directory name\<close>

text \<open>
  \<open>processThreatModelingJob\<close>, lines 377 to 381:
  \<^verbatim>\<open>
    repoName = repoName.replace(/[^a-zA-Z0-9._-]/g, '_');
    if (!repoName || repoName.length === 0) { repoName = 'repo'; }
  \<close>
\<close>

definition repoNameChars :: string where
  "repoNameChars = lowerLetters @ upperLetters @ digitChars @ ''._-''"

definition sanitizeChar :: "char \<Rightarrow> char" where
  "sanitizeChar c = (if c \<in> set repoNameChars then c else CHR ''_'')"

definition sanitizeRepoName :: "string \<Rightarrow> string" where
  "sanitizeRepoName repoName =
     (let replaced = map sanitizeChar repoName
      in if replaced = [] then ''repo'' else replaced)"

text \<open>
  \<open>processThreatModelingJob\<close>, lines 346 to 375: the name before it is sanitized. A
  failing \<open>readdirSync\<close> or \<open>statSync\<close> leaves the function through its \<open>catch\<close>.
\<close>

definition chooseRepoName ::
  "filesystem \<Rightarrow> (string \<Rightarrow> jsval) \<Rightarrow> (string \<Rightarrow> gitResult) \<Rightarrow> string
    \<Rightarrow> string option \<Rightarrow> string option \<Rightarrow> string option \<Rightarrow> thrown + jsval" where
  "chooseRepoName f packageName git cwd uploadedZipPath extractedDir zipFileName =
     (let fallback = (\<lambda>repoName.
            if \<not> truthy repoName then
              (if truthyStr zipFileName then JString (stripZipExt (the zipFileName))
               else JString ''repo'')
            else repoName)
      in if truthyStr uploadedZipPath \<and> truthyStr extractedDir then
           (let extractedPath = path_resolve cwd (the extractedDir)
            in if existsSync f extractedPath then
                 (case readdirSync f extractedPath of
                    Inl e \<Rightarrow> Inl e
                  | Inr extractedContents \<Rightarrow>
                      (case (if length extractedContents = 1 then
                               (case statSync f (path_join extractedPath (hd extractedContents)) of
                                  Inl e \<Rightarrow> Inl e
                                | Inr stats \<Rightarrow>
                                    Inr (if isDirectory stats then JString (hd extractedContents)
                                         else JNull))
                             else Inr JNull) of
                         Inl e \<Rightarrow> Inl e
                       | Inr singleRoot \<Rightarrow>
                           Inr (fallback
                             (if \<not> truthy singleRoot then
                                md_repoName (detectRepoMetadata f packageName git extractedPath
                                  zipFileName)
                              else singleRoot))))
               else Inr (fallback JNull))
         else Inr (fallback JNull))"

text \<open>
  Lines 377 to 381 applied to the chosen value: a name that is not a string has no
  \<open>replace\<close> method, and the call throws a \<open>TypeError\<close>.
\<close>

definition finishName :: "jsval \<Rightarrow> thrown + string" where
  "finishName v =
     (case v of
        JString n \<Rightarrow> Inr (sanitizeRepoName n)
      | _ \<Rightarrow> Inl (ErrorObj ''repoName.replace is not a function''))"

text \<open>Lines 346 to 381: the directory name of the workspace.\<close>

definition workspaceRepoName ::
  "filesystem \<Rightarrow> (string \<Rightarrow> jsval) \<Rightarrow> (string \<Rightarrow> gitResult) \<Rightarrow> string
    \<Rightarrow> string option \<Rightarrow> string option \<Rightarrow> string option \<Rightarrow> thrown + string" where
  "workspaceRepoName f packageName git cwd uploadedZipPath extractedDir zipFileName =
     (case chooseRepoName f packageName git cwd uploadedZipPath extractedDir zipFileName of
        Inl e \<Rightarrow> Inl e
      | Inr v \<Rightarrow> finishName v)"

text \<open>
  The candidates for the name in the order the code tries them, written down on their
  own: the single top-level directory of the extracted archive, the archive's file name
  without \<open>.zip\<close>, the \<open>name\<close> of \<open>package.json\<close>, the name of the extraction directory,
  and \<open>repo\<close>. The middle three are the order of the specification.
\<close>

definition firstTruthy :: "jsval list \<Rightarrow> jsval" where
  "firstTruthy vs = (case filter truthy vs of [] \<Rightarrow> JNull | v # rest \<Rightarrow> v)"

definition zipNameCandidate :: "string option \<Rightarrow> jsval" where
  "zipNameCandidate zipFileName =
     (case zipFileName of None \<Rightarrow> JNull | Some z \<Rightarrow> JString (stripZipExt z))"

definition repoNameCandidates ::
  "filesystem \<Rightarrow> (string \<Rightarrow> jsval) \<Rightarrow> string
    \<Rightarrow> string option \<Rightarrow> string option \<Rightarrow> string option \<Rightarrow> jsval list" where
  "repoNameCandidates f packageName cwd uploadedZipPath extractedDir zipFileName =
     (let extractedPath = path_resolve cwd (the extractedDir);
          extracted = (truthyStr uploadedZipPath \<and> truthyStr extractedDir
                        \<and> existsSync f extractedPath)
      in [ (case f extractedPath of
              Some (Directory [d]) \<Rightarrow>
                (case f (path_join extractedPath d) of
                   Some (Directory names) \<Rightarrow> if extracted then JString d else JNull
                 | _ \<Rightarrow> JNull)
            | _ \<Rightarrow> JNull),
           zipNameCandidate zipFileName,
           (if extracted \<and> existsSync f (path_join extractedPath ''package.json'')
            then packageName (path_join extractedPath ''package.json'') else JNull),
           (if extracted then JString (path_basename extractedPath) else JNull),
           JString ''repo'' ])"

text \<open>The order of claim C7 as it is worded: the archive's file name comes first.\<close>

definition specifiedRepoName ::
  "filesystem \<Rightarrow> (string \<Rightarrow> jsval) \<Rightarrow> string
    \<Rightarrow> string option \<Rightarrow> string option \<Rightarrow> string option \<Rightarrow> jsval" where
  "specifiedRepoName f packageName cwd uploadedZipPath extractedDir zipFileName =
     firstTruthy (tl (repoNameCandidates f packageName cwd uploadedZipPath extractedDir
       zipFileName))"

section \<open>Extracting the archive\<close>

text \<open>
  \<open>fs.mkdirSync(p, {recursive: true})\<close> creates \<open>p\<close> and the directories above it that are
  missing, from the top, and throws when one of them is a regular file. A new directory
  or file is entered in the listing of its parent.
\<close>

definition addChild :: "filesystem \<Rightarrow> string \<Rightarrow> string \<Rightarrow> filesystem" where
  "addChild f dir name =
     (case f dir of
        Some (Directory names) \<Rightarrow>
          f(dir \<mapsto> Directory (if name \<in> set names then names else names @ [name]))
      | other \<Rightarrow> f)"

definition ancestorPaths :: "string \<Rightarrow> string list" where
  "ancestorPaths p =
     (let segments = filter (\<lambda>s. s \<noteq> []) (splitOn CHR ''/'' p)
      in map (\<lambda>k. (if isAbsolute p then ''/'' else []) @ joinWith ''/'' (take k segments))
           [1 ..< Suc (length segments)])"

fun mkdirs :: "filesystem \<Rightarrow> string list \<Rightarrow> thrown + filesystem" where
  "mkdirs f [] = Inr f"
| "mkdirs f (p # ps) =
     (case f p of
        Some (Directory names) \<Rightarrow> mkdirs f ps
      | Some (RegularFile c) \<Rightarrow> Inl (ErrorObj (''ENOTDIR: not a directory, mkdir '' @ p))
      | None \<Rightarrow> mkdirs (addChild (f(p \<mapsto> Directory [])) (path_dirname p) (path_basename p)) ps)"

definition mkdirSync :: "filesystem \<Rightarrow> string \<Rightarrow> thrown + filesystem" where
  "mkdirSync f p = mkdirs f (ancestorPaths p)"

text \<open>
  A write stream on \<open>p\<close> with the content piped into it: it fails when the parent of \<open>p\<close>
  is no directory or \<open>p\<close> is one.
\<close>

definition writeFile :: "filesystem \<Rightarrow> string \<Rightarrow> string \<Rightarrow> thrown + filesystem" where
  "writeFile f p content =
     (case f (path_dirname p) of
        Some (Directory names) \<Rightarrow>
          (case f p of
             Some (Directory below) \<Rightarrow>
               Inl (ErrorObj (''EISDIR: illegal operation on a directory, open '' @ p))
           | other \<Rightarrow>
               Inr (addChild (f(p \<mapsto> RegularFile content)) (path_dirname p) (path_basename p)))
      | other \<Rightarrow> Inl (ErrorObj (''ENOENT: no such file or directory, open '' @ p)))"

text \<open>
  The archive reader (\<open>yauzl\<close>) is outside the sources. What it does to \<open>extractZip\<close> is
  the answer of \<open>open\<close> and, with \<open>lazyEntries\<close>, one event for each \<open>readEntry()\<close>: an entry
  with its file name and the answer of \<open>openReadStream\<close> (an error, no stream, or a
  stream with the content), or an error of the reader; after the last event comes \<open>end\<close>.
\<close>

datatype streamResult = StreamError string | NoStream | Stream string

datatype zipEvent = Entry string streamResult | ZipError string

datatype zipOpen = OpenError string | OpenNothing | Opened "zipEvent list"

text \<open>
  How the promise of \<open>extractZip\<close> ends: resolved, rejected, or left unsettled by an
  exception that a synchronous call throws inside an event handler.
\<close>

datatype settled = Resolved | Rejected thrown | Uncaught thrown

text \<open>
  The handler of \<open>entry\<close> (lines 120 to 162) over the events, \<open>end\<close> (lines 164 to 167) and
  \<open>error\<close> (lines 169 to 171). After a rejection no further entry is read.
\<close>

fun extractEntries :: "string \<Rightarrow> zipEvent list \<Rightarrow> filesystem \<Rightarrow> settled \<times> filesystem" where
  "extractEntries extractTo [] f = (Resolved, f)"
| "extractEntries extractTo (ZipError m # rest) f = (Rejected (ErrorObj m), f)"
| "extractEntries extractTo (Entry fileName stream # rest) f =
     (if fileName \<noteq> [] \<and> last fileName = CHR ''/'' then extractEntries extractTo rest f
      else
        (let fullPath = path_join extractTo fileName;
             normalizedPath = path_normalize fullPath
         in if \<not> prefix (path_normalize extractTo) normalizedPath
            then extractEntries extractTo rest f
            else
              (let parentDir = path_dirname normalizedPath
               in case (if \<not> existsSync f parentDir then mkdirSync f parentDir else Inr f) of
                    Inl err \<Rightarrow> (Uncaught err, f)
                  | Inr f1 \<Rightarrow>
                      (case stream of
                         StreamError m \<Rightarrow> (Rejected (ErrorObj m), f1)
                       | NoStream \<Rightarrow> extractEntries extractTo rest f1
                       | Stream content \<Rightarrow>
                           (case writeFile f1 normalizedPath content of
                              Inl err \<Rightarrow> (Rejected err, f1)
                            | Inr f2 \<Rightarrow> extractEntries extractTo rest f2)))))"

text \<open>\<open>extractZip\<close> (lines 102 to 174); \<open>zipfile\<close> is what opening \<open>zipPath\<close> gives.\<close>

definition extractZip :: "zipOpen \<Rightarrow> string \<Rightarrow> filesystem \<Rightarrow> settled \<times> filesystem" where
  "extractZip zipfile extractTo f =
     (case zipfile of
        OpenError m \<Rightarrow> (Rejected (ErrorObj m), f)
      | OpenNothing \<Rightarrow> (Rejected (ErrorObj ''Failed to open ZIP file''), f)
      | Opened events \<Rightarrow>
          (case (if \<not> existsSync f extractTo then mkdirSync f extractTo else Inr f) of
             Inl err \<Rightarrow> (Uncaught err, f)
           | Inr f1 \<Rightarrow> extractEntries extractTo events f1))"


section \<open>The job table\<close>

text \<open>
  The table \<open>threat_modeling_jobs\<close> and \<open>ThreatModelingJobModel\<close>. A column that may be
  \<open>NULL\<close> is an option; \<open>CURRENT_TIMESTAMP\<close> is the parameter \<open>now\<close>.
\<close>

datatype jobStatus = Pending | Processing | Completed | Failed

record job =
  job_id :: string
  user_id :: nat
  repo_path :: string
  job_query :: "string option"
  status :: jobStatus
  report_path :: "string option"
  data_flow_diagram_path :: "string option"
  threat_model_path :: "string option"
  risk_registry_path :: "string option"
  error_message :: "string option"
  repo_name :: "string option"
  git_branch :: "string option"
  git_commit :: "string option"
  execution_duration :: "int option"
  api_cost :: "string option"
  created_at :: nat
  updated_at :: nat
  completed_at :: "nat option"

type_synonym database = "string \<Rightarrow> job option"

text \<open>\<open>x || null\<close> for an optional string.\<close>

definition orNull :: "string option \<Rightarrow> string option" where
  "orNull x = (if truthyStr x then x else None)"

text \<open>
  \<open>create\<close> (lines 11 to 28); \<open>jobId\<close> is the fresh \<open>uuidv4()\<close>. The row is inserted with
  status \<open>pending\<close>; the columns the statement does not name take their defaults.
\<close>

definition newJob ::
  "nat \<Rightarrow> string \<Rightarrow> nat \<Rightarrow> string \<Rightarrow> string option \<Rightarrow> string option \<Rightarrow> string option
    \<Rightarrow> string option \<Rightarrow> job" where
  "newJob now jobId userId repoPath q repoName gitBranch gitCommit =
     \<lparr> job_id = jobId, user_id = userId, repo_path = repoPath, job_query = orNull q,
       status = Pending, report_path = None, data_flow_diagram_path = None,
       threat_model_path = None, risk_registry_path = None, error_message = None,
       repo_name = orNull repoName, git_branch = orNull gitBranch, git_commit = orNull gitCommit,
       execution_duration = None, api_cost = None,
       created_at = now, updated_at = now, completed_at = None \<rparr>"

definition findById :: "database \<Rightarrow> string \<Rightarrow> thrown + job" where
  "findById d i = (case d i of None \<Rightarrow> Inl (ErrorObj ''Job not found'') | Some j \<Rightarrow> Inr j)"

definition createJob ::
  "nat \<Rightarrow> database \<Rightarrow> string \<Rightarrow> nat \<Rightarrow> string \<Rightarrow> string option \<Rightarrow> string option
    \<Rightarrow> string option \<Rightarrow> string option \<Rightarrow> (thrown + job) \<times> database" where
  "createJob now d jobId userId repoPath q repoName gitBranch gitCommit =
     (case d jobId of
        Some j \<Rightarrow> (Inl (ErrorObj ''UNIQUE constraint failed: threat_modeling_jobs.id''), d)
      | None \<Rightarrow>
          (let d' = d(jobId \<mapsto> newJob now jobId userId repoPath q repoName gitBranch gitCommit)
           in (findById d' jobId, d')))"

text \<open>
  An optional parameter of \<open>updateStatus\<close>: left out (\<open>undefined\<close>) or passed, and then
  \<open>null\<close> or a string. Only a passed one is written.
\<close>

datatype 'a optarg = Omitted | Passed 'a

definition setColumn :: "'a optarg \<Rightarrow> 'a \<Rightarrow> 'a" where
  "setColumn a old = (case a of Omitted \<Rightarrow> old | Passed v \<Rightarrow> v)"

text \<open>The \<open>UPDATE\<close> of \<open>updateStatus\<close> (lines 71 to 109) on the row it finds.\<close>

definition updateStatusRow ::
  "nat \<Rightarrow> jobStatus \<Rightarrow> string option optarg \<Rightarrow> string option optarg \<Rightarrow> string option optarg
    \<Rightarrow> string option optarg \<Rightarrow> string option optarg \<Rightarrow> job \<Rightarrow> job" where
  "updateStatusRow now st reportPath errorMessage dataFlowDiagramPath threatModelPath
      riskRegistryPath j =
     j\<lparr> status := st,
        updated_at := now,
        report_path := setColumn reportPath (report_path j),
        data_flow_diagram_path := setColumn dataFlowDiagramPath (data_flow_diagram_path j),
        threat_model_path := setColumn threatModelPath (threat_model_path j),
        risk_registry_path := setColumn riskRegistryPath (risk_registry_path j),
        error_message := setColumn errorMessage (error_message j),
        completed_at := (if st = Completed \<or> st = Failed then Some now else completed_at j) \<rparr>"

text \<open>A statement \<open>UPDATE ... WHERE id = ?\<close> followed by \<open>findById\<close>, which throws when
  no row has the id.\<close>

definition updateRow :: "database \<Rightarrow> string \<Rightarrow> (job \<Rightarrow> job) \<Rightarrow> (thrown + job) \<times> database" where
  "updateRow d i change =
     (let d' = (case d i of None \<Rightarrow> d | Some j \<Rightarrow> d(i \<mapsto> change j))
      in (findById d' i, d'))"

definition updateStatus ::
  "nat \<Rightarrow> database \<Rightarrow> string \<Rightarrow> jobStatus \<Rightarrow> string option optarg \<Rightarrow> string option optarg
    \<Rightarrow> string option optarg \<Rightarrow> string option optarg \<Rightarrow> string option optarg
    \<Rightarrow> (thrown + job) \<times> database" where
  "updateStatus now d i st reportPath errorMessage dataFlowDiagramPath threatModelPath
      riskRegistryPath =
     updateRow d i (updateStatusRow now st reportPath errorMessage dataFlowDiagramPath
       threatModelPath riskRegistryPath)"

text \<open>\<open>updateReports\<close> (lines 114 to 129) and \<open>updateErrorMessage\<close> (lines 131 to 133).\<close>

definition updateReports ::
  "nat \<Rightarrow> database \<Rightarrow> string \<Rightarrow> string option \<Rightarrow> string option \<Rightarrow> string option
    \<Rightarrow> (thrown + job) \<times> database" where
  "updateReports now d i dataFlowDiagramPath threatModelPath riskRegistryPath =
     updateStatus now d i Completed (Passed threatModelPath) (Passed None)
       (Passed dataFlowDiagramPath) (Passed threatModelPath) (Passed riskRegistryPath)"

definition updateErrorMessage ::
  "nat \<Rightarrow> database \<Rightarrow> string \<Rightarrow> string \<Rightarrow> (thrown + job) \<times> database" where
  "updateErrorMessage now d i errorMessage =
     updateStatus now d i Failed (Passed None) (Passed (Some errorMessage))
       Omitted Omitted Omitted"

text \<open>\<open>updateMetadata\<close> (lines 135 to 143) and \<open>updateExecutionMetrics\<close> (lines 145 to 153).\<close>

definition updateMetadata ::
  "nat \<Rightarrow> database \<Rightarrow> string \<Rightarrow> string option \<Rightarrow> string option \<Rightarrow> string option
    \<Rightarrow> (thrown + job) \<times> database" where
  "updateMetadata now d i repoName gitBranch gitCommit =
     updateRow d i (\<lambda>j. j\<lparr> repo_name := repoName, git_branch := gitBranch,
                            git_commit := gitCommit, updated_at := now \<rparr>)"

definition updateExecutionMetrics ::
  "nat \<Rightarrow> database \<Rightarrow> string \<Rightarrow> int option \<Rightarrow> string option \<Rightarrow> (thrown + job) \<times> database" where
  "updateExecutionMetrics now d i executionDuration apiCost =
     updateRow d i (\<lambda>j. j\<lparr> execution_duration := executionDuration, api_cost := apiCost,
                            updated_at := now \<rparr>)"

definition deleteJob :: "database \<Rightarrow> string \<Rightarrow> database" where
  "deleteJob d i = d(i := None)"

text \<open>
  The writes of the controller to the row of a job. \<open>processThreatModelingJob\<close> is
  called once for a job, by the route that has just created it, and writes: the status
  \<open>processing\<close> first (line 280); then the metadata (line 460), the metrics (lines 632,
  664 and 838), the reports with the status \<open>completed\<close> (line 798), that status alone
  (lines 811 and 820), the status \<open>failed\<close> (line 855) and the error message (line 856).
\<close>

datatype controllerWrite =
    WriteProcessing
  | WriteMetadata "string option" "string option" "string option"
  | WriteMetrics "int option" "string option"
  | WriteReports "string option" "string option" "string option"
  | WriteCompleted
  | WriteFailed
  | WriteErrorMessage string

fun applyWrite :: "string \<Rightarrow> nat \<times> controllerWrite \<Rightarrow> database \<Rightarrow> database" where
  "applyWrite i (now, WriteProcessing) d =
     snd (updateStatus now d i Processing Omitted Omitted Omitted Omitted Omitted)"
| "applyWrite i (now, WriteMetadata repoName gitBranch gitCommit) d =
     snd (updateMetadata now d i repoName gitBranch gitCommit)"
| "applyWrite i (now, WriteMetrics executionDuration apiCost) d =
     snd (updateExecutionMetrics now d i executionDuration apiCost)"
| "applyWrite i (now, WriteReports dataFlowDiagramPath threatModelPath riskRegistryPath) d =
     snd (updateReports now d i dataFlowDiagramPath threatModelPath riskRegistryPath)"
| "applyWrite i (now, WriteCompleted) d =
     snd (updateStatus now d i Completed Omitted Omitted Omitted Omitted Omitted)"
| "applyWrite i (now, WriteFailed) d =
     snd (updateStatus now d i Failed Omitted Omitted Omitted Omitted Omitted)"
| "applyWrite i (now, WriteErrorMessage errorMessage) d =
     snd (updateErrorMessage now d i errorMessage)"

fun applyWrites :: "string \<Rightarrow> (nat \<times> controllerWrite) list \<Rightarrow> database \<Rightarrow> database" where
  "applyWrites i [] d = d"
| "applyWrites i (x # xs) d = applyWrites i xs (applyWrite i x d)"

text \<open>The order of the controller: \<open>processing\<close> is written first or not at all.\<close>

definition controllerOrder :: "(nat \<times> controllerWrite) list \<Rightarrow> bool" where
  "controllerOrder ws = (WriteProcessing \<notin> set (map snd (tl ws)))"

text \<open>The invariant of a row.\<close>

definition completedAtSet :: "job \<Rightarrow> bool" where
  "completedAtSet j = ((completed_at j \<noteq> None) = (status j = Completed \<or> status j = Failed))"

section \<open>The mutex around \<open>process.chdir\<close>\<close>

text \<open>
  \<open>ChdirMutex\<close> (lines 35 to 64). The class has two static fields, \<open>locked\<close> and \<open>queue\<close>.
  A call of \<open>acquire()\<close> is named by a number, its caller; a queued closure is named by
  the caller whose promise it resolves. Resolving the promise of \<open>c\<close> hands \<open>c\<close> the
  release callback. Two more fields observe the run and are read by no code: \<open>grants\<close>
  lists the callers in the order their promises were resolved, and \<open>holders\<close> lists those
  of them that have not yet called their release callback.
\<close>

record mutexState =
  locked :: bool
  queue :: "nat list"
  grants :: "nat list"
  holders :: "nat list"

definition initialMutex :: mutexState where
  "initialMutex = \<lparr> locked = False, queue = [], grants = [], holders = [] \<rparr>"

text \<open>\<open>this.locked = true; resolve(...)\<close> for the caller \<open>c\<close>.\<close>

definition grant :: "nat \<Rightarrow> mutexState \<Rightarrow> mutexState" where
  "grant c m = m\<lparr> locked := True, grants := grants m @ [c], holders := holders m @ [c] \<rparr>"

definition acquire :: "nat \<Rightarrow> mutexState \<Rightarrow> mutexState" where
  "acquire c m = (if \<not> locked m then grant c m else m\<lparr> queue := queue m @ [c] \<rparr>)"

text \<open>The release callback handed to \<open>c\<close>: unlock, then run the first queued closure.\<close>

definition release :: "nat \<Rightarrow> mutexState \<Rightarrow> mutexState" where
  "release c m =
     (let m1 = m\<lparr> locked := False, holders := removeAll c (holders m) \<rparr>
      in case queue m1 of
           [] \<Rightarrow> m1
         | nxt # rest \<Rightarrow> grant nxt (m1\<lparr> queue := rest \<rparr>))"







section \<open>Writing to the file system\<close>

text \<open>
  \<open>fs.rmSync(p, {recursive: true, force: true})\<close> removes \<open>p\<close> and everything below it and
  takes \<open>p\<close> off the listing of its parent; a path that does not exist is no error. It
  throws when the system refuses (permissions, a busy directory), which the predicate
  \<open>fails\<close> decides. \<open>fs.unlinkSync(p)\<close> removes a regular file and throws on anything else.
\<close>

definition removeTree :: "filesystem \<Rightarrow> string \<Rightarrow> filesystem" where
  "removeTree f p =
     (\<lambda>q. if q = p \<or> prefix (p @ ''/'') q then None
          else if q = path_dirname p then
            (case f q of
               Some (Directory names) \<Rightarrow> Some (Directory (removeAll (path_basename p) names))
             | other \<Rightarrow> other)
          else f q)"

definition rmSync :: "(string \<Rightarrow> bool) \<Rightarrow> filesystem \<Rightarrow> string \<Rightarrow> thrown + filesystem" where
  "rmSync fails f p =
     (if fails p then Inl (ErrorObj (''EACCES: permission denied, rm '' @ p))
      else Inr (removeTree f p))"

definition unlinkSync :: "(string \<Rightarrow> bool) \<Rightarrow> filesystem \<Rightarrow> string \<Rightarrow> thrown + filesystem" where
  "unlinkSync fails f p =
     (case f p of
        Some (RegularFile c) \<Rightarrow>
          (if fails p then Inl (ErrorObj (''EACCES: permission denied, unlink '' @ p))
           else Inr (removeTree f p))
      | Some (Directory names) \<Rightarrow> Inl (ErrorObj (''EISDIR: illegal operation on a directory, unlink '' @ p))
      | None \<Rightarrow> Inl (ErrorObj (''ENOENT: no such file or directory, unlink '' @ p)))"

text \<open>
  \<open>fs.copyFileSync(src, dest)\<close>: the source must be a regular file, the parent of the
  destination a directory and the destination not a directory.
\<close>

definition copyFileSync :: "filesystem \<Rightarrow> string \<Rightarrow> string \<Rightarrow> thrown + filesystem" where
  "copyFileSync f src dest =
     (case f src of
        Some (RegularFile c) \<Rightarrow>
          (case f (path_dirname dest) of
             Some (Directory names) \<Rightarrow>
               (case f dest of
                  Some (Directory below) \<Rightarrow>
                    Inl (ErrorObj (''EISDIR: illegal operation on a directory, copyfile '' @ src))
                | other \<Rightarrow>
                    Inr (addChild (f(dest \<mapsto> RegularFile c)) (path_dirname dest)
                           (path_basename dest)))
           | other \<Rightarrow> Inl (ErrorObj (''ENOENT: no such file or directory, copyfile '' @ src)))
      | Some (Directory names) \<Rightarrow>
          Inl (ErrorObj (''EISDIR: illegal operation on a directory, copyfile '' @ src))
      | None \<Rightarrow> Inl (ErrorObj (''ENOENT: no such file or directory, copyfile '' @ src)))"

section \<open>The state a job runs in\<close>

text \<open>
  \<open>RunningJob\<close> (lines 24 to 29) without its \<open>abortController\<close>: the controller is an
  object that the job's closure keeps after the entry is taken off \<open>runningJobs\<close>, so
  its flag \<open>signal.aborted\<close> is a field of the state, \<open>aborted\<close>.
\<close>

record runningJob =
  rj_workDir :: string
  rj_uploadedZipPath :: "string option"
  rj_extractedDir :: "string option"

text \<open>
  What one run of \<open>processThreatModelingJob\<close> reads and writes: the job table, the file
  system, the map \<open>runningJobs\<close>, the flag of its abort controller, the working directory
  of the process, the mutex, and the lines written by \<open>logger.warn\<close> in the \<open>catch\<close> and
  \<open>finally\<close> blocks of the function (without their pictograms; other log lines decide
  nothing and are left out).
\<close>

record world =
  db :: database
  files :: filesystem
  runningJobs :: "string \<Rightarrow> runningJob option"
  aborted :: bool
  processCwd :: string
  mutex :: mutexState
  warnings :: "string list"

text \<open>
  What ends the wait for the child process: the \<open>close\<close> event (exit code or \<open>null\<close>,
  signal or \<open>null\<close>), the \<open>error\<close> event of a failed spawn, or an exception that
  \<open>spawn\<close> throws at once, which rejects the promise as it is.
\<close>

datatype childEvent = Close "int option" "string option" | SpawnError string | SpawnThrew thrown

text \<open>
  The parameters of \<open>processThreatModelingJob\<close> and what the run takes from outside the
  sources. Two parts of the \<open>try\<close> block are parameters, any function of the state that
  returns or throws, so that what is proved holds whatever they do: \<open>ePrepare\<close> stands for lines 282 to 339
  (the API configuration, the agent script, the directories) and \<open>eUnpack\<close> for lines
  383 to 482 (copying the repository into the workspace, validating it, its metadata).
  \<open>eWhileQueued\<close> is what other jobs and requests do to the state while the job waits for
  the mutex; \<open>eAgentRun\<close> is the child process: the event that ends it, the output
  captured from it, and the state it and everything else leave behind. \<open>eRemoveFails\<close>
  tells which removals the system refuses. \<open>eTicket\<close> names the job's call of \<open>acquire()\<close>.
\<close>

record env =
  eJobId :: string
  eUploadedZipPath :: "string option"
  eExtractedDir :: "string option"
  eZipFileName :: "string option"
  eTicket :: nat
  eNow :: nat
  eStartTime :: int
  eEndTime :: int
  ePackageName :: "string \<Rightarrow> jsval"
  eGit :: "string \<Rightarrow> gitResult"
  ePrepare :: "world \<Rightarrow> (thrown + unit) \<times> world"
  eUnpack :: "string \<Rightarrow> world \<Rightarrow> (thrown + unit) \<times> world"
  eWhileQueued :: "world \<Rightarrow> world"
  eAgentRun :: "world \<Rightarrow> childEvent \<times> string \<times> world"
  eRemoveFails :: "string \<Rightarrow> bool"

text \<open>\<open>checkCancellation\<close> (lines 269 to 273).\<close>

definition checkCancellation :: "world \<Rightarrow> thrown + unit" where
  "checkCancellation w = (if aborted w then Inl (ErrorObj ''Job was cancelled'') else Inr ())"

text \<open>\<open>process.chdir(p)\<close> throws unless \<open>p\<close> is a directory.\<close>

definition chdir :: "string \<Rightarrow> world \<Rightarrow> thrown + world" where
  "chdir p w =
     (case files w p of
        Some (Directory names) \<Rightarrow> Inr (w\<lparr> processCwd := p \<rparr>)
      | other \<Rightarrow> Inl (ErrorObj (''ENOENT: no such file or directory, chdir '' @ p)))"

text \<open>\<open>error instanceof Error ? error.message : fallback\<close>.\<close>

definition messageOr :: "string \<Rightarrow> thrown \<Rightarrow> string" where
  "messageOr fallback err = (case err of ErrorObj m \<Rightarrow> m | NonError \<Rightarrow> fallback)"

section \<open>Step 4: running the agent\<close>

text \<open>
  The cost is read off the captured output (lines 619 to 629): the last line that
  matches \<open>/Cost:\s*(\$[\d.]+)/i\<close> gives its group.
\<close>

definition isSpace :: "char \<Rightarrow> bool" where
  "isSpace c = (c \<in> {CHR '' '', CHR 0x09, CHR 0x0A, CHR 0x0B, CHR 0x0C, CHR 0x0D})"

definition trim :: "string \<Rightarrow> string" where
  "trim s = rev (dropWhile isSpace (rev (dropWhile isSpace s)))"

definition isCostChar :: "char \<Rightarrow> bool" where
  "isCostChar c = (c \<in> set digitChars \<or> c = CHR ''.'')"

definition costAt :: "string \<Rightarrow> string option" where
  "costAt s =
     (if prefix ''cost:'' (toLowerCase s) then
        (case dropWhile isSpace (drop 5 s) of
           [] \<Rightarrow> None
         | c # ds \<Rightarrow>
             (if c = CHR ''$'' \<and> takeWhile isCostChar ds \<noteq> []
              then Some (c # takeWhile isCostChar ds) else None))
      else None)"

fun matchCost :: "string \<Rightarrow> string option" where
  "matchCost [] = None"
| "matchCost (c # cs) = (case costAt (c # cs) of Some m \<Rightarrow> Some m | None \<Rightarrow> matchCost cs)"

definition lines_of :: "string \<Rightarrow> string list" where
  "lines_of s = splitOn (CHR 0x0A) s"

definition lastCost :: "string \<Rightarrow> string option" where
  "lastCost capturedOutput =
     (case List.map_filter (\<lambda>l. matchCost (trim l)) (rev (lines_of capturedOutput)) of
        [] \<Rightarrow> None
      | m # ms \<Rightarrow> Some m)"

text \<open>\<open>Math.round(ms / 1000)\<close>.\<close>

definition roundSeconds :: "int \<Rightarrow> int" where
  "roundSeconds ms = (ms + 500) div 1000"

text \<open>
  The handlers of the child process (lines 562 to 585): the promise is rejected when the
  process was ended by a signal or could not be spawned, and resolved for every exit
  code, zero or not; the code is kept in \<open>processExitCode\<close>.
\<close>

definition onChildEvent :: "childEvent \<Rightarrow> thrown + int" where
  "onChildEvent ev =
     (case ev of
        Close None sg \<Rightarrow>
          Inl (ErrorObj (''agent-run process terminated by signal: ''
                 @ (if truthyStr sg then the sg else ''unknown'')))
      | Close (Some code) sg \<Rightarrow> Inr code
      | SpawnError m \<Rightarrow> Inl (ErrorObj (''Failed to execute agent-run: '' @ m))
      | SpawnThrew err \<Rightarrow> Inl err)"

text \<open>Duration and cost are stored (lines 613 to 632, and again lines 647 to 664).\<close>

definition recordMetrics :: "env \<Rightarrow> string \<Rightarrow> world \<Rightarrow> (thrown + unit) \<times> world" where
  "recordMetrics e capturedOutput w =
     (case updateExecutionMetrics (eNow e) (db w) (eJobId e)
             (Some (roundSeconds (eEndTime e - eStartTime e))) (lastCost capturedOutput) of
        (Inl err, d) \<Rightarrow> (Inl err, w\<lparr> db := d \<rparr>)
      | (Inr j, d) \<Rightarrow> (Inr (), w\<lparr> db := d \<rparr>))"

text \<open>
  The inner \<open>try\<close> block (lines 498 to 633). It returns the exit code or what was
  thrown, together with the output captured so far.
\<close>

definition executeAgent ::
  "env \<Rightarrow> string \<Rightarrow> string \<Rightarrow> world \<Rightarrow> (thrown + int) \<times> string \<times> world" where
  "executeAgent e workDir originalCwd w =
     (case chdir workDir w of
        Inl err \<Rightarrow> (Inl err, [], w)
      | Inr w1 \<Rightarrow>
          (case eAgentRun e w1 of
             (ev, capturedOutput, w2) \<Rightarrow>
               (case onChildEvent ev of
                  Inl err \<Rightarrow> (Inl err, capturedOutput, w2)
                | Inr processExitCode \<Rightarrow>
                    (case chdir originalCwd w2 of
                       Inl err \<Rightarrow> (Inl err, capturedOutput, w2)
                     | Inr w3 \<Rightarrow>
                         (case recordMetrics e capturedOutput
                                 (w3\<lparr> mutex := release (eTicket e) (mutex w3) \<rparr>) of
                            (Inl err, w4) \<Rightarrow> (Inl err, capturedOutput, w4)
                          | (Inr u, w4) \<Rightarrow> (Inr processExitCode, capturedOutput, w4))))))"

text \<open>
  Lines 484 to 667: the mutex is acquired, the inner \<open>try\<close> block runs, and its \<open>catch\<close>
  block (lines 635 to 667) restores the directory, calls the release callback, stores
  the metrics and throws the error again.
\<close>

definition runAgent :: "env \<Rightarrow> string \<Rightarrow> world \<Rightarrow> (thrown + int \<times> string) \<times> world" where
  "runAgent e workDir w =
     (let w1 = eWhileQueued e (w\<lparr> mutex := acquire (eTicket e) (mutex w) \<rparr>);
          originalCwd = processCwd w1
      in case executeAgent e workDir originalCwd w1 of
           (Inr processExitCode, capturedOutput, w2) \<Rightarrow>
             (Inr (processExitCode, capturedOutput), w2)
         | (Inl err, capturedOutput, w2) \<Rightarrow>
             (let w3 = (case chdir originalCwd w2 of Inl chdirErr \<Rightarrow> w2 | Inr w' \<Rightarrow> w');
                  w4 = w3\<lparr> mutex := release (eTicket e) (mutex w3) \<rparr>
              in case recordMetrics e capturedOutput w4 of
                   (Inl metricsErr, w5) \<Rightarrow> (Inl metricsErr, w5)
                 | (Inr u, w5) \<Rightarrow> (Inl err, w5)))"

section \<open>Step 5: finding and moving the reports\<close>

text \<open>
  The directories that are searched (lines 674 to 702): the work directory, the
  repository directory and the hidden directories directly below either.
\<close>

definition hiddenDirs :: "filesystem \<Rightarrow> string \<Rightarrow> string list" where
  "hiddenDirs f dir =
     (case readdirSync f dir of
        Inl err \<Rightarrow> []
      | Inr names \<Rightarrow>
          map (path_join dir)
            (filter (\<lambda>n. (case f (path_join dir n) of
                             Some (Directory below) \<Rightarrow> True | other \<Rightarrow> False)
                          \<and> prefix ''.'' n) names))"

definition searchDirs :: "filesystem \<Rightarrow> string \<Rightarrow> string \<Rightarrow> string list" where
  "searchDirs f workDir repoDir = [workDir, repoDir] @ hiddenDirs f workDir @ hiddenDirs f repoDir"

text \<open>The three keyword families, tested on the lower-cased file name (lines 726 to 729).\<close>

definition isDataFlow :: "string \<Rightarrow> bool" where
  "isDataFlow file =
     (includes_str (toLowerCase file) ''data_flow'' \<or> includes_str (toLowerCase file) ''dataflow'')"

definition isThreatModel :: "string \<Rightarrow> bool" where
  "isThreatModel file =
     (includes_str (toLowerCase file) ''threat_model''
      \<or> includes_str (toLowerCase file) ''threatmodel'')"

definition isRiskRegistry :: "string \<Rightarrow> bool" where
  "isRiskRegistry file =
     (includes_str (toLowerCase file) ''risk_registry''
      \<or> includes_str (toLowerCase file) ''riskregistry'')"

text \<open>
  The loop over the names of one directory (lines 716 to 737). It pushes a pair of file
  name and directory for every regular file whose name matches a family. A \<open>statSync\<close>
  that throws ends the loop through the \<open>catch\<close> of line 738; what was pushed stays.
\<close>

fun scanEntries :: "filesystem \<Rightarrow> string \<Rightarrow> string list \<Rightarrow> (string \<times> string) list" where
  "scanEntries f searchDir [] = []"
| "scanEntries f searchDir (file # rest) =
     (case statSync f (path_join searchDir file) of
        Inl err \<Rightarrow> []
      | Inr stats \<Rightarrow>
          (if \<not> isFile stats then scanEntries f searchDir rest
           else if isDataFlow file \<or> isThreatModel file \<or> isRiskRegistry file
             then (file, searchDir) # scanEntries f searchDir rest
           else scanEntries f searchDir rest))"

definition scanDir :: "filesystem \<Rightarrow> string \<Rightarrow> (string \<times> string) list" where
  "scanDir f searchDir =
     (if \<not> existsSync f searchDir then []
      else (case readdirSync f searchDir of
              Inl err \<Rightarrow> []
            | Inr dirFiles \<Rightarrow> scanEntries f searchDir dirFiles))"

definition findReportFiles :: "filesystem \<Rightarrow> string \<Rightarrow> string \<Rightarrow> (string \<times> string) list" where
  "findReportFiles f workDir repoDir = concat (map (scanDir f) (searchDirs f workDir repoDir))"

text \<open>The error thrown when no report file was found (lines 747 to 762).\<close>

definition isErrorLine :: "string \<Rightarrow> bool" where
  "isErrorLine line =
     (includes_str (toLowerCase line) ''error''
      \<or> includes_str (toLowerCase line) ''failed''
      \<or> includes_str (toLowerCase line) ''exceeded'')"

definition noReportsError :: "int option \<Rightarrow> string \<Rightarrow> thrown" where
  "noReportsError processExitCode capturedOutput =
     (if processExitCode \<noteq> None \<and> processExitCode \<noteq> Some 0 then
        (let errorLines = filter isErrorLine (lines_of capturedOutput);
             errorDetails = ''agent-run exited with code '' @ numberToString (the processExitCode)
               @ (if length errorLines > 0
                  then ''. Error details: '' @ joinWith ''; '' (sliceLast 3 errorLines)
                  else [])
         in ErrorObj (''No threat modeling report files were generated. '' @ errorDetails))
      else ErrorObj ''No threat modeling report files were generated by the agent'')"

text \<open>
  The reports are copied into the job's report directory and told apart by name (lines
  770 to 790): one \<open>if\<close> ... \<open>else if\<close> chain, data flow first.
\<close>

record reportPaths =
  rp_dataFlowDiagram :: "string option"
  rp_threatModel :: "string option"
  rp_riskRegistry :: "string option"

definition noPaths :: reportPaths where
  "noPaths = \<lparr> rp_dataFlowDiagram = None, rp_threatModel = None, rp_riskRegistry = None \<rparr>"

definition classify :: "string \<Rightarrow> string \<Rightarrow> reportPaths \<Rightarrow> reportPaths" where
  "classify file destPath paths =
     (if isDataFlow file then paths\<lparr> rp_dataFlowDiagram := Some destPath \<rparr>
      else if isThreatModel file then paths\<lparr> rp_threatModel := Some destPath \<rparr>
      else if isRiskRegistry file then paths\<lparr> rp_riskRegistry := Some destPath \<rparr>
      else paths)"

fun moveReports ::
  "string \<Rightarrow> (string \<times> string) list \<Rightarrow> reportPaths \<Rightarrow> filesystem
    \<Rightarrow> (thrown + reportPaths) \<times> filesystem" where
  "moveReports jobReportDir [] paths f = (Inr paths, f)"
| "moveReports jobReportDir ((file, sourceDir) # rest) paths f =
     (case copyFileSync f (path_join sourceDir file) (path_join jobReportDir file) of
        Inl err \<Rightarrow> (Inl err, f)
      | Inr f' \<Rightarrow>
          moveReports jobReportDir rest (classify file (path_join jobReportDir file) paths) f')"

text \<open>
  The path a field ends with after the loop: that of the last file of its category, or
  what the field held before when there is none.
\<close>

definition lastMoved :: "string \<Rightarrow> (string \<times> string) list \<Rightarrow> string option \<Rightarrow> string option" where
  "lastMoved jobReportDir found old =
     (if found = [] then old else Some (path_join jobReportDir (fst (last found))))"

section \<open>Storing the result\<close>

text \<open>
  Lines 797 to 815, the body of the \<open>try\<close>: the report paths are stored with status
  \<open>completed\<close>, the row is read back, and the status is set again should it differ.
\<close>

definition storeReports :: "env \<Rightarrow> reportPaths \<Rightarrow> database \<Rightarrow> (thrown + unit) \<times> database" where
  "storeReports e paths d =
     (case updateReports (eNow e) d (eJobId e) (rp_dataFlowDiagram paths) (rp_threatModel paths)
             (rp_riskRegistry paths) of
        (Inl err, d1) \<Rightarrow> (Inl err, d1)
      | (Inr j, d1) \<Rightarrow>
          (case findById d1 (eJobId e) of
             Inl err \<Rightarrow> (Inl err, d1)
           | Inr verifyJob \<Rightarrow>
               (if status verifyJob \<noteq> Completed then
                  (case updateStatus (eNow e) d1 (eJobId e) Completed
                          Omitted Omitted Omitted Omitted Omitted of
                     (Inl err, d2) \<Rightarrow> (Inl err, d2)
                   | (Inr j', d2) \<Rightarrow> (Inr (), d2))
                else (Inr (), d1))))"

text \<open>Lines 797 to 826, with the \<open>catch\<close> that sets the status alone.\<close>

definition markCompleted :: "env \<Rightarrow> reportPaths \<Rightarrow> database \<Rightarrow> (thrown + unit) \<times> database" where
  "markCompleted e paths d =
     (case storeReports e paths d of
        (Inr u, d1) \<Rightarrow> (Inr (), d1)
      | (Inl updateError, d1) \<Rightarrow>
          (case updateStatus (eNow e) d1 (eJobId e) Completed
                  Omitted Omitted Omitted Omitted Omitted of
             (Inl statusError, d2) \<Rightarrow>
               (Inl (ErrorObj (''Failed to update job status: ''
                       @ messageOr ''Unknown error'' statusError)), d2)
           | (Inr j, d2) \<Rightarrow> (Inr (), d2)))"

text \<open>Lines 830 to 844: the metrics are written once more; a failure is only logged.\<close>

definition preserveMetrics :: "env \<Rightarrow> database \<Rightarrow> database" where
  "preserveMetrics e d =
     (case findById d (eJobId e) of
        Inl metricsError \<Rightarrow> d
      | Inr jobWithMetrics \<Rightarrow>
          (if execution_duration jobWithMetrics \<noteq> None \<or> api_cost jobWithMetrics \<noteq> None
           then snd (updateExecutionMetrics (eNow e) d (eJobId e)
                      (execution_duration jobWithMetrics) (api_cost jobWithMetrics))
           else d))"

text \<open>Lines 792 to 846.\<close>

definition persistReports :: "env \<Rightarrow> reportPaths \<Rightarrow> world \<Rightarrow> (thrown + unit) \<times> world" where
  "persistReports e paths w =
     (case checkCancellation w of
        Inl err \<Rightarrow> (Inl err, w)
      | Inr u \<Rightarrow>
          (case markCompleted e paths (db w) of
             (Inl err, d1) \<Rightarrow> (Inl err, w\<lparr> db := d1 \<rparr>)
           | (Inr u', d1) \<Rightarrow> (Inr (), w\<lparr> db := preserveMetrics e d1 \<rparr>)))"

text \<open>
  Lines 669 to 846, what follows the agent in the \<open>try\<close> block: the reports are looked
  for; none is an error; otherwise they are moved and the job is stored as completed.
\<close>

definition finishJob ::
  "env \<Rightarrow> string \<Rightarrow> string \<Rightarrow> string \<Rightarrow> int \<Rightarrow> string \<Rightarrow> world \<Rightarrow> (thrown + unit) \<times> world" where
  "finishJob e workDir repoDir jobReportDir processExitCode capturedOutput w =
     (let reportFiles = findReportFiles (files w) workDir repoDir
      in if length reportFiles = 0
         then (Inl (noReportsError (Some processExitCode) capturedOutput), w)
         else (case moveReports jobReportDir reportFiles noPaths (files w) of
                 (Inl err, f') \<Rightarrow> (Inl err, w\<lparr> files := f' \<rparr>)
               | (Inr paths, f') \<Rightarrow> persistReports e paths (w\<lparr> files := f' \<rparr>)))"

section \<open>\<open>processThreatModelingJob\<close>\<close>

text \<open>The \<open>try\<close> block (lines 275 to 847).\<close>

definition tryBlock :: "env \<Rightarrow> string \<Rightarrow> string \<Rightarrow> world \<Rightarrow> (thrown + unit) \<times> world" where
  "tryBlock e workDir jobReportDir w =
     (case checkCancellation w of
        Inl err \<Rightarrow> (Inl err, w)
      | Inr u \<Rightarrow>
     (case updateStatus (eNow e) (db w) (eJobId e) Processing
             Omitted Omitted Omitted Omitted Omitted of
        (Inl err, d1) \<Rightarrow> (Inl err, w\<lparr> db := d1 \<rparr>)
      | (Inr j, d1) \<Rightarrow>
     (case ePrepare e (w\<lparr> db := d1 \<rparr>) of
        (Inl err, w2) \<Rightarrow> (Inl err, w2)
      | (Inr u2, w2) \<Rightarrow>
     (case checkCancellation w2 of
        Inl err \<Rightarrow> (Inl err, w2)
      | Inr u3 \<Rightarrow>
     (case workspaceRepoName (files w2) (ePackageName e) (eGit e) (processCwd w2)
             (eUploadedZipPath e) (eExtractedDir e) (eZipFileName e) of
        Inl err \<Rightarrow> (Inl err, w2)
      | Inr repoName \<Rightarrow>
     (case eUnpack e repoName w2 of
        (Inl err, w3) \<Rightarrow> (Inl err, w3)
      | (Inr u4, w3) \<Rightarrow>
     (case runAgent e workDir w3 of
        (Inl err, w4) \<Rightarrow> (Inl err, w4)
      | (Inr (processExitCode, capturedOutput), w4) \<Rightarrow>
          finishJob e workDir (path_join workDir repoName) jobReportDir processExitCode
            capturedOutput w4)))))))"

text \<open>
  The \<open>catch\<close> block (lines 848 to 865), up to its \<open>throw error\<close>: unless the job was
  cancelled, the status and the message are stored; an error of the database is logged.
\<close>

definition logWarning :: "string \<Rightarrow> world \<Rightarrow> world" where
  "logWarning line w = w\<lparr> warnings := warnings w @ [line] \<rparr>"

definition catchBlock :: "env \<Rightarrow> thrown \<Rightarrow> world \<Rightarrow> world" where
  "catchBlock e err w =
     (let errorMessage = messageOr ''Unknown error occurred'' err
      in if \<not> aborted w then
           (case updateStatus (eNow e) (db w) (eJobId e) Failed
                   Omitted Omitted Omitted Omitted Omitted of
              (Inl dbError, d1) \<Rightarrow>
                logWarning ''Could not update job status (job may have been deleted)''
                  (w\<lparr> db := d1 \<rparr>)
            | (Inr j, d1) \<Rightarrow>
                (case updateErrorMessage (eNow e) d1 (eJobId e) errorMessage of
                   (Inl dbError, d2) \<Rightarrow>
                     logWarning ''Could not update job status (job may have been deleted)''
                       (w\<lparr> db := d2 \<rparr>)
                 | (Inr j', d2) \<Rightarrow> w\<lparr> db := d2 \<rparr>))
         else w)"

text \<open>
  The \<open>finally\<close> block (lines 866 to 902). Each removal stands in a \<open>try\<close> of its own
  whose \<open>catch\<close> logs a warning.
\<close>

definition cleanWorkDir :: "env \<Rightarrow> string \<Rightarrow> world \<Rightarrow> world" where
  "cleanWorkDir e workDir w =
     (if existsSync (files w) workDir then
        (case rmSync (eRemoveFails e) (files w) workDir of
           Inl err \<Rightarrow> logWarning (''Could not clean up work directory for job '' @ eJobId e) w
         | Inr f' \<Rightarrow> w\<lparr> files := f' \<rparr>)
      else w)"

definition cleanUploadedZip :: "env \<Rightarrow> world \<Rightarrow> world" where
  "cleanUploadedZip e w =
     (if truthyStr (eUploadedZipPath e) \<and> existsSync (files w) (the (eUploadedZipPath e)) then
        (case unlinkSync (eRemoveFails e) (files w) (the (eUploadedZipPath e)) of
           Inl err \<Rightarrow> logWarning ''Could not clean up uploaded ZIP file'' w
         | Inr f' \<Rightarrow> w\<lparr> files := f' \<rparr>)
      else w)"

definition cleanExtractedDir :: "env \<Rightarrow> world \<Rightarrow> world" where
  "cleanExtractedDir e w =
     (if truthyStr (eExtractedDir e) \<and> existsSync (files w) (the (eExtractedDir e)) then
        (case rmSync (eRemoveFails e) (files w) (the (eExtractedDir e)) of
           Inl err \<Rightarrow> logWarning ''Could not clean up extracted directory'' w
         | Inr f' \<Rightarrow> w\<lparr> files := f' \<rparr>)
      else w)"

definition finallyBlock :: "env \<Rightarrow> string \<Rightarrow> world \<Rightarrow> world" where
  "finallyBlock e workDir w =
     cleanExtractedDir e
       (cleanUploadedZip e
         (cleanWorkDir e workDir (w\<lparr> runningJobs := (runningJobs w)(eJobId e := None) \<rparr>)))"

text \<open>
  Lines 254 to 266: the directories of the job, and the entry in \<open>runningJobs\<close> with a new
  abort controller.
\<close>

definition workDirOf :: "string \<Rightarrow> string \<Rightarrow> string" where
  "workDirOf cwd0 jobId = path_join (path_join cwd0 ''work_dir'') jobId"

definition jobReportDirOf :: "string \<Rightarrow> string \<Rightarrow> string" where
  "jobReportDirOf cwd0 jobId = path_join (path_join cwd0 ''threat-modeling-reports'') jobId"

definition registerJob :: "env \<Rightarrow> world \<Rightarrow> world" where
  "registerJob e w =
     w\<lparr> runningJobs := (runningJobs w)(eJobId e \<mapsto>
            \<lparr> rj_workDir = workDirOf (processCwd w) (eJobId e),
              rj_uploadedZipPath = eUploadedZipPath e,
              rj_extractedDir = eExtractedDir e \<rparr>),
        aborted := False \<rparr>"

text \<open>
  The whole function. Its result is \<open>Inr ()\<close> when the promise is fulfilled and \<open>Inl err\<close>
  when it is rejected with \<open>err\<close>: the \<open>catch\<close> block throws the error it caught.
\<close>

definition processThreatModelingJob :: "env \<Rightarrow> world \<Rightarrow> (thrown + unit) \<times> world" where
  "processThreatModelingJob e w =
     (let workDir = workDirOf (processCwd w) (eJobId e);
          jobReportDir = jobReportDirOf (processCwd w) (eJobId e)
      in case tryBlock e workDir jobReportDir (registerJob e w) of
           (Inl err, w1) \<Rightarrow> (Inl err, finallyBlock e workDir (catchBlock e err w1))
         | (Inr u, w1) \<Rightarrow> (Inr (), finallyBlock e workDir w1))"

text \<open>How the \<open>try\<close> block of a run ends, and the state it leaves to \<open>catch\<close> and \<open>finally\<close>.\<close>

definition tryOutcome :: "env \<Rightarrow> world \<Rightarrow> thrown + unit" where
  "tryOutcome e w =
     fst (tryBlock e (workDirOf (processCwd w) (eJobId e))
            (jobReportDirOf (processCwd w) (eJobId e)) (registerJob e w))"

definition afterTry :: "env \<Rightarrow> world \<Rightarrow> world" where
  "afterTry e w =
     snd (tryBlock e (workDirOf (processCwd w) (eJobId e))
            (jobReportDirOf (processCwd w) (eJobId e)) (registerJob e w))"

section \<open>Deleting a job\<close>

text \<open>
  The route \<open>DELETE /jobs/:id\<close> from line 1218 on, for a job that exists and belongs to the
  user, where \<open>aborted\<close> is the flag of this job's controller: a running job is aborted
  and its files and its entry are removed, then the report directory and the row. Each
  removal stands in a \<open>try\<close> of its own.
\<close>

definition tryRemove :: "(string \<Rightarrow> bool) \<Rightarrow> string \<Rightarrow> world \<Rightarrow> world" where
  "tryRemove fails p w =
     (if existsSync (files w) p then
        (case rmSync fails (files w) p of Inl err \<Rightarrow> w | Inr f' \<Rightarrow> w\<lparr> files := f' \<rparr>)
      else w)"

definition tryUnlink :: "(string \<Rightarrow> bool) \<Rightarrow> string \<Rightarrow> world \<Rightarrow> world" where
  "tryUnlink fails p w =
     (if existsSync (files w) p then
        (case unlinkSync fails (files w) p of Inl err \<Rightarrow> w | Inr f' \<Rightarrow> w\<lparr> files := f' \<rparr>)
      else w)"

definition deleteRunningJob :: "(string \<Rightarrow> bool) \<Rightarrow> string \<Rightarrow> world \<Rightarrow> world" where
  "deleteRunningJob fails i w =
     (let w1 =
            (case runningJobs w i of
               None \<Rightarrow> w
             | Some runningJob \<Rightarrow>
                 (let wa = tryRemove fails (rj_workDir runningJob) (w\<lparr> aborted := True \<rparr>);
                      wb = (if truthyStr (rj_uploadedZipPath runningJob)
                            then tryUnlink fails (the (rj_uploadedZipPath runningJob)) wa else wa);
                      wc = (if truthyStr (rj_extractedDir runningJob)
                            then tryRemove fails (the (rj_extractedDir runningJob)) wb else wb)
                  in wc\<lparr> runningJobs := (runningJobs wc)(i := None) \<rparr>));
          w2 = tryRemove fails (jobReportDirOf (processCwd w1) i) w1
      in w2\<lparr> db := deleteJob (db w2) i \<rparr>)"

section \<open>A run from the scenarios of the specification\<close>

text \<open>
  The job \<open>job-1\<close> of an archive \<open>upload.zip\<close> that holds one folder \<open>myapp\<close>. The agent
  writes \<open>threat_model_report.md\<close> into the work directory, prints a warning and exits
  with code 1.
\<close>

definition exampleFiles :: filesystem where
  "exampleFiles =
     Map.empty(
       ''/srv'' \<mapsto> Directory [''work_dir'', ''threat-modeling-reports'', ''uploads''],
       ''/srv/uploads'' \<mapsto> Directory [''1f'', ''extracted-1f''],
       ''/srv/uploads/1f'' \<mapsto> RegularFile ''PK'',
       ''/srv/uploads/extracted-1f'' \<mapsto> Directory [''myapp''],
       ''/srv/uploads/extracted-1f/myapp'' \<mapsto> Directory [''main.py''],
       ''/srv/uploads/extracted-1f/myapp/main.py'' \<mapsto> RegularFile ''print(1)'',
       ''/srv/work_dir'' \<mapsto> Directory [''job-1''],
       ''/srv/work_dir/job-1'' \<mapsto> Directory [''myapp''],
       ''/srv/work_dir/job-1/myapp'' \<mapsto> Directory [''main.py''],
       ''/srv/work_dir/job-1/myapp/main.py'' \<mapsto> RegularFile ''print(1)'',
       ''/srv/threat-modeling-reports'' \<mapsto> Directory [''job-1''],
       ''/srv/threat-modeling-reports/job-1'' \<mapsto> Directory [])"

definition exampleOutput :: string where
  "exampleOutput = ''Error: output token limit exceeded'' @ [CHR 0x0A] @ ''Cost: $0.3216''"

definition agentWroteReport :: "world \<Rightarrow> world" where
  "agentWroteReport w =
     w\<lparr> files := (files w)(
          ''/srv/work_dir/job-1'' \<mapsto> Directory [''myapp'', ''threat_model_report.md''],
          ''/srv/work_dir/job-1/threat_model_report.md'' \<mapsto> RegularFile ''# Threat model'') \<rparr>"

definition exampleEnv :: env where
  "exampleEnv =
     \<lparr> eJobId = ''job-1'',
       eUploadedZipPath = Some ''/srv/uploads/1f'',
       eExtractedDir = Some ''/srv/uploads/extracted-1f'',
       eZipFileName = Some ''upload.zip'',
       eTicket = 0, eNow = 100, eStartTime = 0, eEndTime = 61500,
       ePackageName = (\<lambda>p. JNull),
       eGit = (\<lambda>d. GitFailed),
       ePrepare = (\<lambda>w. (Inr (), w)),
       eUnpack = (\<lambda>n w. (Inr (), w)),
       eWhileQueued = (\<lambda>w. w),
       eAgentRun = (\<lambda>w. (Close (Some 1) None, exampleOutput, agentWroteReport w)),
       eRemoveFails = (\<lambda>p. False) \<rparr>"

definition exampleWorld :: world where
  "exampleWorld =
     \<lparr> db = Map.empty(''job-1'' \<mapsto>
              newJob 0 ''job-1'' 1 ''[UPLOADED] upload.zip'' None None None None),
       files = exampleFiles,
       runningJobs = Map.empty,
       aborted = False,
       processCwd = ''/srv'',
       mutex = initialMutex,
       warnings = [] \<rparr>"

text \<open>
  A second run: while the agent of \<open>job-1\<close> is running, two other jobs call \<open>acquire()\<close>
  and the user deletes \<open>job-1\<close>; the agent has finished its work by then and exits with
  code 0. Of what the route does, the run keeps the abort of the controller and the
  deletion of the row; the files it removes are left in place.
\<close>

definition deletedWhileRunning :: "world \<Rightarrow> world" where
  "deletedWhileRunning w =
     w\<lparr> mutex := acquire 2 (acquire 1 (mutex w)),
        aborted := True,
        db := deleteJob (db w) ''job-1'' \<rparr>"

definition raceEnv :: env where
  "raceEnv = exampleEnv\<lparr> eAgentRun :=
     (\<lambda>w. (Close (Some 0) None, exampleOutput, deletedWhileRunning (agentWroteReport w))) \<rparr>"

text \<open>A third run: the API configuration is missing, so line 302 throws.\<close>

definition noConfigEnv :: env where
  "noConfigEnv = exampleEnv\<lparr> ePrepare :=
     (\<lambda>w. (Inl (ErrorObj ''Anthropic API configuration not found''), w)) \<rparr>"

text \<open>A fourth run: the agent exits with code 0 and has written and printed nothing.\<close>

definition silentEnv :: env where
  "silentEnv = exampleEnv\<lparr> eAgentRun := (\<lambda>w. (Close (Some 0) None, [], w)) \<rparr>"

chapter \<open>Properties\<close>

section \<open>The workspace directory name\<close>

lemma sanitizeChar_allowed: "sanitizeChar c \<in> set repoNameChars"
  by (simp add: sanitizeChar_def repoNameChars_def)

lemma repo_allowed: "set ''repo'' \<subseteq> set repoNameChars"
  by (simp add: repoNameChars_def lowerLetters_def)

text \<open>
  Claim C9. Whatever candidate name is sanitized, the result is non-empty and consists of
  characters of \<open>[A-Za-z0-9._-]\<close> only: a character of that set is kept in place, every
  other one is replaced by an underscore, and the empty result is replaced by \<open>repo\<close>.
\<close>

theorem sanitizeRepoName_safe:
  "set (sanitizeRepoName n) \<subseteq> set repoNameChars
   \<and> sanitizeRepoName n \<noteq> []
   \<and> sanitizeRepoName [] = ''repo''
   \<and> (n \<noteq> [] \<longrightarrow> length (sanitizeRepoName n) = length n
        \<and> (\<forall>i < length n. sanitizeRepoName n ! i
              = (if n ! i \<in> set repoNameChars then n ! i else CHR ''_'')))"
proof -
  have a: "set (map sanitizeChar n) \<subseteq> set repoNameChars"
    using sanitizeChar_allowed by auto
  have "set (sanitizeRepoName n) \<subseteq> set repoNameChars"
    using a repo_allowed by (simp add: sanitizeRepoName_def Let_def del: set_map)
  moreover have "sanitizeRepoName n \<noteq> []"
    by (simp add: sanitizeRepoName_def Let_def)
  moreover have "sanitizeRepoName [] = ''repo''"
    by (simp add: sanitizeRepoName_def)
  moreover have "n \<noteq> [] \<longrightarrow> length (sanitizeRepoName n) = length n
        \<and> (\<forall>i < length n. sanitizeRepoName n ! i
              = (if n ! i \<in> set repoNameChars then n ! i else CHR ''_''))"
    by (simp add: sanitizeRepoName_def Let_def sanitizeChar_def)
  ultimately show ?thesis by blast
qed

theorem sanitizeRepoName_safe_witness:
  "sanitizeRepoName ''my app (v2).zip'' = ''my_app__v2_.zip''
   \<and> set (sanitizeRepoName ''my app (v2).zip'') \<subseteq> set repoNameChars
   \<and> sanitizeRepoName ''my app (v2).zip'' \<noteq> []"
  using sanitizeRepoName_safe [of "''my app (v2).zip''"]
  by (simp add: sanitizeRepoName_def sanitizeChar_def repoNameChars_def lowerLetters_def
      upperLetters_def digitChars_def)

subsection \<open>The order of the candidates\<close>

lemma firstTruthy_Cons: "firstTruthy (v # vs) = (if truthy v then v else firstTruthy vs)"
  by (simp add: firstTruthy_def)

lemma firstTruthy_Nil: "firstTruthy [] = JNull"
  by (simp add: firstTruthy_def)

lemma sanitize_repo: "sanitizeRepoName ''repo'' = ''repo''"
  by (simp add: sanitizeRepoName_def sanitizeChar_def repoNameChars_def lowerLetters_def)

lemma truthy_simps:
  "truthy JNull = False" "truthy (JString s) = (s \<noteq> [])" "truthy JOther = True"
  by (simp_all add: truthy_def)

lemma stripZipExt_Nil: "stripZipExt [] = []"
  by (simp add: stripZipExt_def)

text \<open>The fallback of lines 368 to 375 followed by the sanitizing of lines 378 to 381.\<close>

lemma finishName_fallback:
  "finishName (if \<not> truthy v then
                 (if truthyStr z then JString (stripZipExt (the z)) else JString ''repo'')
               else v)
   = finishName (firstTruthy [v, zipNameCandidate z, JString ''repo''])"
proof (cases "truthy v")
  case True
  then show ?thesis by (simp add: firstTruthy_Cons)
next
  case False
  show ?thesis
  proof (cases z)
    case None
    with False show ?thesis
      by (simp add: firstTruthy_Cons truthyStr_def zipNameCandidate_def truthy_simps)
  next
    case (Some n)
    with False show ?thesis
      by (simp add: firstTruthy_Cons truthyStr_def zipNameCandidate_def truthy_simps
          finishName_def sanitize_repo)
         (auto simp: stripZipExt_def sanitizeRepoName_def split: if_splits)
  qed
qed

lemma detect_repoName:
  "md_repoName (detectRepoMetadata f packageName git d z)
   = (if truthy (firstTruthy [zipNameCandidate z,
           (if existsSync f (path_join d ''package.json'')
            then packageName (path_join d ''package.json'') else JNull),
           JString (path_basename d)])
      then firstTruthy [zipNameCandidate z,
           (if existsSync f (path_join d ''package.json'')
            then packageName (path_join d ''package.json'') else JNull),
           JString (path_basename d)]
      else JString [])"
  by (cases z)
     (simp_all add: detectRepoMetadata_def Let_def firstTruthy_Cons firstTruthy_Nil
       truthyStr_def zipNameCandidate_def truthy_simps stripZipExt_Nil)

text \<open>
  Claim C7, amended. When the extraction directory can be listed, the directory name of
  the workspace is the sanitized first candidate that is present and non-empty, in this
  order: the single top-level directory of the extracted archive; the archive's original
  file name without its \<open>.zip\<close>; the \<open>name\<close> of \<open>package.json\<close>; the name of the
  extraction directory; \<open>repo\<close>. (A \<open>name\<close> that is not a string makes the job fail.)
\<close>

theorem workspaceRepoName_order:
  assumes "truthyStr uploadedZipPath \<and> truthyStr extractedDir
           \<and> existsSync f (path_resolve cwd (the extractedDir))
           \<longrightarrow> (\<exists>names. f (path_resolve cwd (the extractedDir)) = Some (Directory names)
                 \<and> (length names = 1
                      \<longrightarrow> existsSync f (path_join (path_resolve cwd (the extractedDir)) (hd names))))"
  shows "workspaceRepoName f packageName git cwd uploadedZipPath extractedDir zipFileName
         = finishName (firstTruthy (repoNameCandidates f packageName cwd uploadedZipPath
             extractedDir zipFileName))"
proof -
  define ep where "ep = path_resolve cwd (the extractedDir)"
  define pk where "pk = (if existsSync f (path_join ep ''package.json'')
                         then packageName (path_join ep ''package.json'') else JNull)"
  have ws: "workspaceRepoName f packageName git cwd uploadedZipPath extractedDir zipFileName
        = (case chooseRepoName f packageName git cwd uploadedZipPath extractedDir zipFileName of
             Inl e \<Rightarrow> Inl e | Inr v \<Rightarrow> finishName v)"
    by (simp add: workspaceRepoName_def)
  show ?thesis
  proof (cases "truthyStr uploadedZipPath \<and> truthyStr extractedDir \<and> existsSync f ep")
    case False
    have c: "chooseRepoName f packageName git cwd uploadedZipPath extractedDir zipFileName
          = Inr (if truthyStr zipFileName then JString (stripZipExt (the zipFileName))
               else JString ''repo'')"
      using False by (auto simp: chooseRepoName_def Let_def ep_def truthy_simps)
    have r: "firstTruthy (repoNameCandidates f packageName cwd uploadedZipPath extractedDir
               zipFileName)
          = firstTruthy [JNull, zipNameCandidate zipFileName, JString ''repo'']"
      using False
      by (auto simp: repoNameCandidates_def Let_def ep_def firstTruthy_Cons truthy_simps
          split: option.splits fsnode.splits list.splits)
    show ?thesis
      apply (subst ws)
      apply (subst c)
      apply (subst r)
      using finishName_fallback [of JNull zipFileName]
      apply (simp add: truthy_simps)
      done
  next
    case True
    then obtain names where d: "f ep = Some (Directory names)"
      and ch: "length names = 1 \<longrightarrow> existsSync f (path_join ep (hd names))"
      using assms unfolding ep_def by blast
    define single where "single = (case names of
         [n] \<Rightarrow> (case f (path_join ep n) of Some (Directory ns) \<Rightarrow> JString n | _ \<Rightarrow> JNull)
       | _ \<Rightarrow> JNull)"
    have st: "(if length names = 1 then
                 (case statSync f (path_join ep (hd names)) of
                    Inl e \<Rightarrow> Inl e
                  | Inr stats \<Rightarrow> Inr (if isDirectory stats then JString (hd names) else JNull))
              else Inr JNull) = Inr single"
      using ch
      by (cases names) (auto simp: single_def statSync_def existsSync_def isDirectory_def
          split: option.splits fsnode.splits list.splits)
    have c: "chooseRepoName f packageName git cwd uploadedZipPath extractedDir zipFileName
          = Inr (let v = (if \<not> truthy single then
                     md_repoName (detectRepoMetadata f packageName git ep zipFileName) else single)
                 in if \<not> truthy v then
                     (if truthyStr zipFileName then JString (stripZipExt (the zipFileName))
                      else JString ''repo'') else v)"
      using True d st
      by (simp add: chooseRepoName_def Let_def ep_def [symmetric] readdirSync_def)
    have r: "repoNameCandidates f packageName cwd uploadedZipPath extractedDir zipFileName
          = [single, zipNameCandidate zipFileName, pk, JString (path_basename ep), JString ''repo'']"
      using True d
      by (cases names)
         (auto simp: repoNameCandidates_def Let_def ep_def [symmetric] single_def pk_def
          split: option.splits fsnode.splits list.splits)
    show ?thesis
      apply (subst ws)
      apply (subst c)
      apply (subst r)
      apply (simp add: Let_def finishName_fallback detect_repoName pk_def [symmetric]
            firstTruthy_Cons firstTruthy_Nil truthy_simps)
      done
  qed
qed

text \<open>
  An archive \<open>upload.zip\<close> that wraps its content in one folder \<open>myapp\<close>, with no
  \<open>package.json\<close> beside it.
\<close>

theorem workspaceRepoName_order_witness:
  "workspaceRepoName
     (Map.empty(''/srv/uploads/extracted-1f'' \<mapsto> Directory [''myapp''],
                ''/srv/uploads/extracted-1f/myapp'' \<mapsto> Directory [''main.py'']))
     (\<lambda>p. JNull) (\<lambda>d. GitFailed) ''/srv''
     (Some ''/srv/uploads/1f'') (Some ''/srv/uploads/extracted-1f'') (Some ''upload.zip'')
   = finishName (JString ''myapp'')"
proof -
  have ep: "path_resolve ''/srv'' ''/srv/uploads/extracted-1f'' = ''/srv/uploads/extracted-1f''"
    by code_simp
  have ch: "path_join ''/srv/uploads/extracted-1f'' ''myapp'' = ''/srv/uploads/extracted-1f/myapp''"
    by code_simp
  show ?thesis
    by (subst workspaceRepoName_order)
       (simp_all add: ep ch truthyStr_def existsSync_def repoNameCandidates_def Let_def
         firstTruthy_Cons truthy_simps)
qed

text \<open>
  Claim C7 as worded puts the archive's file name first. For the archive above the
  code names the workspace directory \<open>myapp\<close>, where the worded order gives \<open>upload\<close>.
\<close>

theorem workspaceRepoName_zip_first_counterexample:
  "workspaceRepoName
     (Map.empty(''/srv/uploads/extracted-1f'' \<mapsto> Directory [''myapp''],
                ''/srv/uploads/extracted-1f/myapp'' \<mapsto> Directory [''main.py'']))
     (\<lambda>p. JNull) (\<lambda>d. GitFailed) ''/srv''
     (Some ''/srv/uploads/1f'') (Some ''/srv/uploads/extracted-1f'') (Some ''upload.zip'')
   = Inr ''myapp''
   \<and> finishName (specifiedRepoName
     (Map.empty(''/srv/uploads/extracted-1f'' \<mapsto> Directory [''myapp''],
                ''/srv/uploads/extracted-1f/myapp'' \<mapsto> Directory [''main.py'']))
     (\<lambda>p. JNull) ''/srv''
     (Some ''/srv/uploads/1f'') (Some ''/srv/uploads/extracted-1f'') (Some ''upload.zip''))
   = Inr ''upload''"
  by code_simp


section \<open>The mutex\<close>









text \<open>
  What a run sees of the deletion of its job: the controller is aborted when the job is
  running, the row is gone, and the mutex and the working directory are as before.
\<close>

lemma tryRemove_keeps:
  "db (tryRemove fails p w) = db w" "mutex (tryRemove fails p w) = mutex w"
  "aborted (tryRemove fails p w) = aborted w" "runningJobs (tryRemove fails p w) = runningJobs w"
  "processCwd (tryRemove fails p w) = processCwd w"
  by (simp_all add: tryRemove_def split: sum.splits)

lemma tryUnlink_keeps:
  "db (tryUnlink fails p w) = db w" "mutex (tryUnlink fails p w) = mutex w"
  "aborted (tryUnlink fails p w) = aborted w" "runningJobs (tryUnlink fails p w) = runningJobs w"
  "processCwd (tryUnlink fails p w) = processCwd w"
  by (simp_all add: tryUnlink_def split: sum.splits)

lemma deleteRunningJob_seen:
  "db (deleteRunningJob fails i w) = deleteJob (db w) i"
  "mutex (deleteRunningJob fails i w) = mutex w"
  "processCwd (deleteRunningJob fails i w) = processCwd w"
  "runningJobs (deleteRunningJob fails i w) i = None"
  "aborted (deleteRunningJob fails i w) = (aborted w \<or> runningJobs w i \<noteq> None)"
  by (auto simp add: deleteRunningJob_def Let_def tryRemove_keeps tryUnlink_keeps
      split: option.splits)

text \<open>
  The job itself can invoke its callback twice: line 611 releases, and when line 632
  then throws, the \<open>catch\<close> releases again at line 645. In the second run above the row
  of the job is gone when the metrics are stored, and the two waiting jobs both get
  the lock.
\<close>

lemma runAgent_releases_twice:
  "holders (mutex (snd (runAgent raceEnv ''/srv/work_dir/job-1'' exampleWorld))) = [1, 2]
   \<and> fst (runAgent raceEnv ''/srv/work_dir/job-1'' exampleWorld) = Inl (ErrorObj ''Job not found'')"
  by code_simp

section \<open>The job table\<close>

lemma updateRow_present:
  "d i = Some j \<Longrightarrow> updateRow d i change = (Inr (change j), d(i \<mapsto> change j))"
  by (simp add: updateRow_def findById_def)

lemma updateRow_absent:
  "d i = None \<Longrightarrow> updateRow d i change = (Inl (ErrorObj ''Job not found''), d)"
  by (simp add: updateRow_def findById_def)

lemma applyWrite_keeps:
  assumes "d i = Some j" "completedAtSet j" "snd x \<noteq> WriteProcessing"
  shows "\<exists>j'. applyWrite i x d i = Some j' \<and> completedAtSet j'"
proof -
  obtain t wr where x: "x = (t, wr)" by (cases x)
  show ?thesis
    using assms unfolding x
    by (cases wr)
       (auto simp: updateStatus_def updateMetadata_def updateExecutionMetrics_def
          updateReports_def updateErrorMessage_def updateRow_present updateStatusRow_def
          completedAtSet_def)
qed

lemma applyWrites_keep:
  "d i = Some j \<Longrightarrow> completedAtSet j \<Longrightarrow> WriteProcessing \<notin> set (map snd ws)
   \<Longrightarrow> \<exists>j'. applyWrites i ws d i = Some j' \<and> completedAtSet j'"
proof (induction ws arbitrary: d j)
  case Nil
  then show ?case by simp
next
  case (Cons x ws)
  from Cons.prems have "snd x \<noteq> WriteProcessing" by auto
  from applyWrite_keeps [where d = d and i = i, OF Cons.prems(1,2) this]
  obtain j1 where "applyWrite i x d i = Some j1" "completedAtSet j1" by blast
  with Cons.IH [of "applyWrite i x d" j1] Cons.prems(3) show ?case by simp
qed

lemma newJob_inv: "completedAtSet (newJob t i uid path q rn gb gc)"
  by (simp add: completedAtSet_def newJob_def)

lemma processing_first:
  "d i = Some (newJob t0 i uid path q rn gb gc)
   \<Longrightarrow> \<exists>j'. applyWrite i (t, WriteProcessing) d i = Some j' \<and> completedAtSet j'"
  by (simp add: updateStatus_def updateRow_present updateStatusRow_def completedAtSet_def
      newJob_def)

lemma controllerOrder_take: "controllerOrder ws \<Longrightarrow> controllerOrder (take n ws)"
  by (cases n; cases ws) (auto simp: controllerOrder_def dest: in_set_takeD)

lemma lifecycle_inv:
  assumes d: "d i = Some (newJob t0 i uid path q rn gb gc)" and o: "controllerOrder ws"
  shows "\<exists>j. applyWrites i ws d i = Some j \<and> completedAtSet j"
proof (cases ws)
  case Nil
  with d newJob_inv show ?thesis by simp
next
  case (Cons x xs)
  with o have xs: "WriteProcessing \<notin> set (map snd xs)" by (simp add: controllerOrder_def)
  have "\<exists>j1. applyWrite i x d i = Some j1 \<and> completedAtSet j1"
  proof (cases "snd x = WriteProcessing")
    case True
    then have "x = (fst x, WriteProcessing)" by (cases x) simp
    with processing_first [where d = d and i = i and t = "fst x", OF d]
    show ?thesis by simp
  next
    case False
    from applyWrite_keeps [where d = d and i = i, OF d newJob_inv False] show ?thesis .
  qed
  then obtain j1 where "applyWrite i x d i = Some j1" "completedAtSet j1" by blast
  from applyWrites_keep [where d = "applyWrite i x d" and i = i, OF this xs]
  show ?thesis by (simp add: Cons)
qed

text \<open>
  Claim C8. A job is created, and the controller then writes to its row in its order
  (\<open>processing\<close> first or never). After any number of these writes the row is there and
  its \<open>completed_at\<close> is set if and only if its status is \<open>completed\<close> or \<open>failed\<close>; so it
  is \<open>NULL\<close> while the status is \<open>pending\<close> or \<open>processing\<close>.
\<close>

theorem completed_at_iff_terminal:
  assumes c: "createJob t0 d0 i uid path q rn gb gc = (Inr j0, d)"
    and o: "controllerOrder ws"
  shows "\<exists>j. applyWrites i (take n ws) d i = Some j
             \<and> ((completed_at j \<noteq> None) = (status j = Completed \<or> status j = Failed))"
proof -
  from c have "d i = Some (newJob t0 i uid path q rn gb gc)"
    by (auto simp: createJob_def Let_def split: option.splits)
  from lifecycle_inv [where d = d and i = i, OF this controllerOrder_take [OF o]]
  show ?thesis by (simp add: completedAtSet_def)
qed

text \<open>A job that is created, set to \<open>processing\<close>, measured and completed.\<close>

theorem completed_at_iff_terminal_witness:
  "\<exists>j. applyWrites ''job-1''
          (take 3 [(1, WriteProcessing), (2, WriteMetrics (Some 62) None),
                   (3, WriteReports None (Some ''/reports/job-1/threat_model.md'') None)])
          (Map.empty(''job-1'' \<mapsto> newJob 0 ''job-1'' 1 ''/repo'' None None None None))
          ''job-1'' = Some j
       \<and> ((completed_at j \<noteq> None) = (status j = Completed \<or> status j = Failed))"
proof -
  have c: "createJob 0 Map.empty ''job-1'' 1 ''/repo'' None None None None
           = (Inr (newJob 0 ''job-1'' 1 ''/repo'' None None None None),
              Map.empty(''job-1'' \<mapsto> newJob 0 ''job-1'' 1 ''/repo'' None None None None))"
    by (simp add: createJob_def findById_def)
  have o: "controllerOrder [(1, WriteProcessing), (2, WriteMetrics (Some 62) None),
                   (3, WriteReports None (Some ''/reports/job-1/threat_model.md'') None)]"
    by (simp add: controllerOrder_def)
  from completed_at_iff_terminal [OF c o, of 3] show ?thesis .
qed


section \<open>Extracting the archive\<close>


text \<open>
  An entry that climbs higher is skipped, and the entries after it are extracted with
  their parent directories.
\<close>

lemma extractZip_skips_traversal:
  "(case extractZip (Opened [Entry ''../../etc/passwd'' (Stream ''root''),
                              Entry ''myapp/'' NoStream,
                              Entry ''myapp/src/main.py'' (Stream ''print(1)'')])
           ''/srv/uploads/extracted-1f''
           (Map.empty(''/srv'' \<mapsto> Directory [''uploads''], ''/srv/uploads'' \<mapsto> Directory [])) of
      (outcome, f) \<Rightarrow>
        (outcome, f ''/srv/etc/passwd'', f ''/srv/uploads/extracted-1f/myapp/src/main.py'',
         f ''/srv/uploads/extracted-1f/myapp''))
   = (Resolved, None, Some (RegularFile ''print(1)''), Some (Directory [''src'']))"
  by code_simp

section \<open>Finding and telling apart the reports\<close>

lemma includes_str_sublist: "includes_str s p \<longleftrightarrow> sublist p s"
  by (induction s) (simp_all add: sublist_Cons_right)

lemma scanEntries_eq:
  "scanEntries f d names =
     map (\<lambda>n. (n, d))
       (filter (\<lambda>n. isFile (the (f (path_join d n)))
                    \<and> (isDataFlow n \<or> isThreatModel n \<or> isRiskRegistry n))
          (takeWhile (\<lambda>n. existsSync f (path_join d n)) names))"
  by (induction names) (auto simp: statSync_def existsSync_def split: option.splits)



lemma moveReports_paths:
  "moveReports jr found p f = (Inr p', f') \<Longrightarrow>
     rp_dataFlowDiagram p'
       = lastMoved jr (filter (\<lambda>x. isDataFlow (fst x)) found) (rp_dataFlowDiagram p)
   \<and> rp_threatModel p'
       = lastMoved jr (filter (\<lambda>x. \<not> isDataFlow (fst x) \<and> isThreatModel (fst x)) found)
           (rp_threatModel p)
   \<and> rp_riskRegistry p'
       = lastMoved jr
           (filter (\<lambda>x. \<not> isDataFlow (fst x) \<and> \<not> isThreatModel (fst x)
                         \<and> isRiskRegistry (fst x)) found)
           (rp_riskRegistry p)"
proof (induction found arbitrary: p f)
  case Nil
  then show ?case by (simp add: lastMoved_def)
next
  case (Cons x found)
  obtain n dir where x: "x = (n, dir)" by (cases x)
  from Cons.prems x obtain f1 where
    c: "copyFileSync f (path_join dir n) (path_join jr n) = Inr f1"
    and m: "moveReports jr found (classify n (path_join jr n) p) f1 = (Inr p', f')"
    by (auto split: sum.splits)
  from Cons.IH [OF m] show ?case
    unfolding x by (auto simp: lastMoved_def classify_def)
qed

text \<open>
  Claim C10. The scan of a directory keeps exactly the regular files among the names it
  can inspect whose lower-cased name matches one of the three families, whichever it is.
  When the copies succeed, each path field ends with the last kept file of its category,
  and the categories are exclusive in the fixed order: a data-flow name counts as data
  flow only; a threat-model name counts only when it is no data-flow name; a
  risk-registry name counts only when it is neither.
\<close>

theorem harvest_inclusive_classify_by_precedence:
  "scanEntries f d names =
     map (\<lambda>n. (n, d))
       (filter (\<lambda>n. isFile (the (f (path_join d n)))
                    \<and> (isDataFlow n \<or> isThreatModel n \<or> isRiskRegistry n))
          (takeWhile (\<lambda>n. existsSync f (path_join d n)) names))
   \<and> (fst (moveReports jr found noPaths f0) = Inr paths \<longrightarrow>
        rp_dataFlowDiagram paths = lastMoved jr (filter (\<lambda>x. isDataFlow (fst x)) found) None
      \<and> rp_threatModel paths
          = lastMoved jr (filter (\<lambda>x. \<not> isDataFlow (fst x) \<and> isThreatModel (fst x)) found) None
      \<and> rp_riskRegistry paths
          = lastMoved jr
              (filter (\<lambda>x. \<not> isDataFlow (fst x) \<and> \<not> isThreatModel (fst x)
                            \<and> isRiskRegistry (fst x)) found) None)"
proof -
  have "fst (moveReports jr found noPaths f0) = Inr paths \<longrightarrow>
        rp_dataFlowDiagram paths = lastMoved jr (filter (\<lambda>x. isDataFlow (fst x)) found) None
      \<and> rp_threatModel paths
          = lastMoved jr (filter (\<lambda>x. \<not> isDataFlow (fst x) \<and> isThreatModel (fst x)) found) None
      \<and> rp_riskRegistry paths
          = lastMoved jr
              (filter (\<lambda>x. \<not> isDataFlow (fst x) \<and> \<not> isThreatModel (fst x)
                            \<and> isRiskRegistry (fst x)) found) None"
  proof
    assume a: "fst (moveReports jr found noPaths f0) = Inr paths"
    then have "moveReports jr found noPaths f0 = (Inr paths, snd (moveReports jr found noPaths f0))"
      by (metis prod.collapse)
    from moveReports_paths [OF this]
    show "rp_dataFlowDiagram paths = lastMoved jr (filter (\<lambda>x. isDataFlow (fst x)) found) None
      \<and> rp_threatModel paths
          = lastMoved jr (filter (\<lambda>x. \<not> isDataFlow (fst x) \<and> isThreatModel (fst x)) found) None
      \<and> rp_riskRegistry paths
          = lastMoved jr
              (filter (\<lambda>x. \<not> isDataFlow (fst x) \<and> \<not> isThreatModel (fst x)
                            \<and> isRiskRegistry (fst x)) found) None"
      by (simp add: noPaths_def)
  qed
  with scanEntries_eq show ?thesis by blast
qed

text \<open>
  A file whose name matches two families, \<open>threat_model_data_flow.md\<close>, is kept once
  and fills the data-flow field alone.
\<close>

theorem harvest_inclusive_classify_by_precedence_witness:
  "scanEntries
     (Map.empty(''/w/threat_model_data_flow.md'' \<mapsto> RegularFile ''x'',
                ''/w/notes.txt'' \<mapsto> RegularFile ''y'', ''/r'' \<mapsto> Directory []))
     ''/w'' [''threat_model_data_flow.md'', ''notes.txt'']
     = [(''threat_model_data_flow.md'', ''/w'')]
   \<and> fst (moveReports ''/r'' [(''threat_model_data_flow.md'', ''/w'')] noPaths
        (Map.empty(''/w/threat_model_data_flow.md'' \<mapsto> RegularFile ''x'',
                   ''/w/notes.txt'' \<mapsto> RegularFile ''y'', ''/r'' \<mapsto> Directory [])))
     = Inr \<lparr> rp_dataFlowDiagram = Some ''/r/threat_model_data_flow.md'',
              rp_threatModel = None, rp_riskRegistry = None \<rparr>
   \<and> rp_threatModel \<lparr> rp_dataFlowDiagram = Some ''/r/threat_model_data_flow.md'',
                       rp_threatModel = None, rp_riskRegistry = None \<rparr>
     = lastMoved ''/r''
         (filter (\<lambda>x. \<not> isDataFlow (fst x) \<and> isThreatModel (fst x))
            [(''threat_model_data_flow.md'', ''/w'')]) None"
proof -
  have s: "scanEntries
     (Map.empty(''/w/threat_model_data_flow.md'' \<mapsto> RegularFile ''x'',
                ''/w/notes.txt'' \<mapsto> RegularFile ''y'', ''/r'' \<mapsto> Directory []))
     ''/w'' [''threat_model_data_flow.md'', ''notes.txt'']
     = [(''threat_model_data_flow.md'', ''/w'')]"
    by code_simp
  have m: "fst (moveReports ''/r'' [(''threat_model_data_flow.md'', ''/w'')] noPaths
        (Map.empty(''/w/threat_model_data_flow.md'' \<mapsto> RegularFile ''x'',
                   ''/w/notes.txt'' \<mapsto> RegularFile ''y'', ''/r'' \<mapsto> Directory [])))
     = Inr \<lparr> rp_dataFlowDiagram = Some ''/r/threat_model_data_flow.md'',
              rp_threatModel = None, rp_riskRegistry = None \<rparr>"
    by code_simp
  from harvest_inclusive_classify_by_precedence
    [of "Map.empty(''/w/threat_model_data_flow.md'' \<mapsto> RegularFile ''x'',
                   ''/w/notes.txt'' \<mapsto> RegularFile ''y'', ''/r'' \<mapsto> Directory [])"
        "''/w''" "[''threat_model_data_flow.md'', ''notes.txt'']"
        "''/r''" "[(''threat_model_data_flow.md'', ''/w'')]"
        "Map.empty(''/w/threat_model_data_flow.md'' \<mapsto> RegularFile ''x'',
                   ''/w/notes.txt'' \<mapsto> RegularFile ''y'', ''/r'' \<mapsto> Directory [])"
        "\<lparr> rp_dataFlowDiagram = Some ''/r/threat_model_data_flow.md'',
              rp_threatModel = None, rp_riskRegistry = None \<rparr>"] m
  have "rp_threatModel \<lparr> rp_dataFlowDiagram = Some ''/r/threat_model_data_flow.md'',
                       rp_threatModel = None, rp_riskRegistry = None \<rparr>
     = lastMoved ''/r''
         (filter (\<lambda>x. \<not> isDataFlow (fst x) \<and> isThreatModel (fst x))
            [(''threat_model_data_flow.md'', ''/w'')]) None"
    by blast
  with s m show ?thesis by blast
qed


section \<open>The exit code and the reports\<close>



text \<open>
  After a \<open>close\<close> event with an exit code the agent step returns the code and the
  captured output, provided the two directories can be entered and the row of the job
  is there to take the metrics: the \<open>try\<close> block goes on with the search for reports.
\<close>

lemma runAgent_exit_code:
  assumes q: "w1 = eWhileQueued e (w\<lparr> mutex := acquire (eTicket e) (mutex w) \<rparr>)"
    and wd: "files w1 workDir = Some (Directory names)"
    and ev: "eAgentRun e (w1\<lparr> processCwd := workDir \<rparr>) = (Close (Some c) sg, out, w2)"
    and orig: "files w2 (processCwd w1) = Some (Directory names')"
    and row: "db w2 (eJobId e) = Some j"
  shows "fst (runAgent e workDir w) = Inr (c, out)"
proof -
  have c1: "chdir workDir w1 = Inr (w1\<lparr> processCwd := workDir \<rparr>)"
    using wd by (simp add: chdir_def)
  have c2: "chdir (processCwd w1) w2 = Inr (w2\<lparr> processCwd := processCwd w1 \<rparr>)"
    using orig by (simp add: chdir_def)
  obtain w4 where m: "recordMetrics e out
             (w2\<lparr> processCwd := processCwd w1,
                  mutex := release (eTicket e) (mutex (w2\<lparr> processCwd := processCwd w1 \<rparr>)) \<rparr>)
           = (Inr (), w4)"
    using row by (simp add: recordMetrics_def updateExecutionMetrics_def updateRow_present)
  have x: "executeAgent e workDir (processCwd w1) w1 = (Inr c, out, w4)"
    using m by (simp add: executeAgent_def c1 ev onChildEvent_def c2)
  show ?thesis
    by (simp add: runAgent_def Let_def q [symmetric] x)
qed



text \<open>The same scenario through the whole function.\<close>

lemma scenario_exit_code_1_completed:
  "fst (processThreatModelingJob exampleEnv exampleWorld) = Inr ()
   \<and> map_option status (db (snd (processThreatModelingJob exampleEnv exampleWorld)) ''job-1'')
       = Some Completed
   \<and> map_option threat_model_path
         (db (snd (processThreatModelingJob exampleEnv exampleWorld)) ''job-1'')
       = Some (Some ''/srv/threat-modeling-reports/job-1/threat_model_report.md'')"
  by code_simp

section \<open>No report at all\<close>

lemma sublist_joinWith: "x \<in> set xs \<Longrightarrow> sublist x (joinWith sep xs)"
proof (induction sep xs rule: joinWith.induct)
  case (1 sep)
  then show ?case by simp
next
  case (2 sep y)
  then show ?case by simp
next
  case (3 sep y z zs)
  show ?case
  proof (cases "x = y")
    case True
    then show ?thesis by simp
  next
    case False
    with 3 have "sublist x (joinWith sep (z # zs))" by simp
    then obtain ps ss where "joinWith sep (z # zs) = ps @ x @ ss" by (auto simp: sublist_def)
    then have "joinWith sep (y # z # zs) = (y @ sep @ ps) @ x @ ss" by simp
    then show ?thesis unfolding sublist_def by blast
  qed
qed

lemma sliceLast_props:
  "suffix (sliceLast n xs) xs \<and> length (sliceLast n xs) = min n (length xs)"
  by (auto simp: sliceLast_def suffix_drop)

text \<open>
  Claim C6. When the search finds no report file, the \<open>try\<close> block throws. For the exit
  code 0 the message is the plain one. For another exit code the message names the
  code and, when the captured output has lines that contain \<open>error\<close>, \<open>failed\<close> or
  \<open>exceeded\<close> in any letter case, the last three of them (all, if there are fewer). The
  \<open>catch\<close> block stores the status \<open>failed\<close> with this message, unless the job was
  cancelled or its row is gone.
\<close>

theorem no_reports_is_failure:
  assumes "findReportFiles (files w) workDir repoDir = []"
  shows "finishJob e workDir repoDir jr c out w = (Inl (noReportsError (Some c) out), w)
    \<and> (c = 0 \<longrightarrow> noReportsError (Some c) out
                   = ErrorObj ''No threat modeling report files were generated by the agent'')
    \<and> (c \<noteq> 0 \<longrightarrow>
         (\<exists>msg. noReportsError (Some c) out = ErrorObj msg
            \<and> prefix ''No threat modeling report files were generated. agent-run exited with code '' msg
            \<and> includes_str msg (numberToString c)
            \<and> (\<forall>l \<in> set (sliceLast 3 (filter isErrorLine (lines_of out))). includes_str msg l)
            \<and> suffix (sliceLast 3 (filter isErrorLine (lines_of out)))
                 (filter isErrorLine (lines_of out))
            \<and> length (sliceLast 3 (filter isErrorLine (lines_of out)))
                 = min 3 (length (filter isErrorLine (lines_of out)))))
    \<and> (\<not> aborted w \<and> db w (eJobId e) \<noteq> None \<longrightarrow>
         (\<exists>j'. db (catchBlock e (noReportsError (Some c) out) w) (eJobId e) = Some j'
            \<and> status j' = Failed
            \<and> error_message j' = Some (messageOr ''Unknown error occurred''
                 (noReportsError (Some c) out))))"
proof -
  have a: "finishJob e workDir repoDir jr c out w = (Inl (noReportsError (Some c) out), w)"
    using assms by (simp add: finishJob_def)
  have b: "c = 0 \<longrightarrow> noReportsError (Some c) out
                   = ErrorObj ''No threat modeling report files were generated by the agent''"
    by (simp add: noReportsError_def)
  have c: "c \<noteq> 0 \<longrightarrow>
         (\<exists>msg. noReportsError (Some c) out = ErrorObj msg
            \<and> prefix ''No threat modeling report files were generated. agent-run exited with code '' msg
            \<and> includes_str msg (numberToString c)
            \<and> (\<forall>l \<in> set (sliceLast 3 (filter isErrorLine (lines_of out))). includes_str msg l)
            \<and> suffix (sliceLast 3 (filter isErrorLine (lines_of out)))
                 (filter isErrorLine (lines_of out))
            \<and> length (sliceLast 3 (filter isErrorLine (lines_of out)))
                 = min 3 (length (filter isErrorLine (lines_of out))))"
  proof
    assume nz: "c \<noteq> 0"
    define errs where "errs = filter isErrorLine (lines_of out)"
    define head where
      "head = ''No threat modeling report files were generated. agent-run exited with code ''"
    define msg where "msg = head @ numberToString c
        @ (if length errs > 0 then ''. Error details: '' @ joinWith ''; '' (sliceLast 3 errs)
           else [])"
    have m: "noReportsError (Some c) out = ErrorObj msg"
      using nz by (simp add: noReportsError_def Let_def msg_def errs_def head_def)
    have p: "prefix head msg" by (simp add: msg_def)
    have i: "includes_str msg (numberToString c)"
      unfolding includes_str_sublist msg_def by (rule sublist_appendI)
    have l: "\<forall>l \<in> set (sliceLast 3 errs). includes_str msg l"
    proof
      fix l assume l: "l \<in> set (sliceLast 3 errs)"
      then have ne: "length errs > 0" by (auto simp: sliceLast_def)
      from sublist_joinWith [OF l, of "''; ''"] obtain ps ss where
        "joinWith ''; '' (sliceLast 3 errs) = ps @ l @ ss" by (auto simp: sublist_def)
      then have "msg = (head @ numberToString c @ ''. Error details: '' @ ps) @ l @ ss"
        using ne by (simp add: msg_def)
      then show "includes_str msg l"
        unfolding includes_str_sublist sublist_def by blast
    qed
    show "\<exists>msg. noReportsError (Some c) out = ErrorObj msg
            \<and> prefix ''No threat modeling report files were generated. agent-run exited with code '' msg
            \<and> includes_str msg (numberToString c)
            \<and> (\<forall>l \<in> set (sliceLast 3 (filter isErrorLine (lines_of out))). includes_str msg l)
            \<and> suffix (sliceLast 3 (filter isErrorLine (lines_of out)))
                 (filter isErrorLine (lines_of out))
            \<and> length (sliceLast 3 (filter isErrorLine (lines_of out)))
                 = min 3 (length (filter isErrorLine (lines_of out)))"
      using m p i l sliceLast_props [of 3 errs]
      unfolding errs_def head_def by blast
  qed
  have d: "\<not> aborted w \<and> db w (eJobId e) \<noteq> None \<longrightarrow>
         (\<exists>j'. db (catchBlock e (noReportsError (Some c) out) w) (eJobId e) = Some j'
            \<and> status j' = Failed
            \<and> error_message j' = Some (messageOr ''Unknown error occurred''
                 (noReportsError (Some c) out)))"
    by (auto simp: catchBlock_def updateStatus_def updateErrorMessage_def updateRow_present
        updateStatusRow_def setColumn_def Let_def)
  show ?thesis using a b c d by blast
qed

text \<open>The agent of the scenario exits with code 1 and has written nothing.\<close>

theorem no_reports_is_failure_witness:
  "fst (finishJob exampleEnv ''/srv/work_dir/job-1'' ''/srv/work_dir/job-1/myapp''
          ''/srv/threat-modeling-reports/job-1'' 1 exampleOutput exampleWorld)
   = Inl (ErrorObj (''No threat modeling report files were generated. ''
            @ ''agent-run exited with code 1. Error details: ''
            @ ''Error: output token limit exceeded''))"
proof -
  have none: "findReportFiles (files exampleWorld) ''/srv/work_dir/job-1''
                ''/srv/work_dir/job-1/myapp'' = []"
    by code_simp
  have msg: "noReportsError (Some 1) exampleOutput
             = ErrorObj (''No threat modeling report files were generated. ''
                  @ ''agent-run exited with code 1. Error details: ''
                  @ ''Error: output token limit exceeded'')"
    by code_simp
  from no_reports_is_failure [OF none, of exampleEnv "''/srv/threat-modeling-reports/job-1''"
         1 exampleOutput]
  have "finishJob exampleEnv ''/srv/work_dir/job-1'' ''/srv/work_dir/job-1/myapp''
          ''/srv/threat-modeling-reports/job-1'' 1 exampleOutput exampleWorld
        = (Inl (noReportsError (Some 1) exampleOutput), exampleWorld)"
    by blast
  then show ?thesis by (simp add: msg)
qed


text \<open>
  The other scenario of the specification through the whole function: exit code 0 and
  nothing written.
\<close>

lemma scenario_exit_code_0_nothing_written:
  "fst (processThreatModelingJob silentEnv exampleWorld)
     = Inl (ErrorObj ''No threat modeling report files were generated by the agent'')
   \<and> map_option status (db (snd (processThreatModelingJob silentEnv exampleWorld)) ''job-1'')
       = Some Failed
   \<and> map_option error_message
         (db (snd (processThreatModelingJob silentEnv exampleWorld)) ''job-1'')
       = Some (Some ''No threat modeling report files were generated by the agent'')"
  by code_simp

section \<open>The \<open>catch\<close> block\<close>

lemma process_cases:
  "processThreatModelingJob e w =
     (tryOutcome e w,
      finallyBlock e (workDirOf (processCwd w) (eJobId e))
        (case tryOutcome e w of
           Inl err \<Rightarrow> catchBlock e err (afterTry e w)
         | Inr u \<Rightarrow> afterTry e w))"
  by (simp add: processThreatModelingJob_def tryOutcome_def afterTry_def Let_def
      split: prod.splits sum.splits)

lemma clean_db:
  "db (cleanWorkDir e wd w) = db w"
  "db (cleanUploadedZip e w) = db w"
  "db (cleanExtractedDir e w) = db w"
  by (auto simp: cleanWorkDir_def cleanUploadedZip_def cleanExtractedDir_def logWarning_def
      split: sum.splits)

lemma finallyBlock_db: "db (finallyBlock e wd w) = db w"
  by (simp add: finallyBlock_def clean_db)

lemma catchBlock_db:
  "db (catchBlock e err w) =
     (if aborted w then db w
      else case db w (eJobId e) of
             None \<Rightarrow> db w
           | Some j \<Rightarrow> (db w)(eJobId e \<mapsto>
               j\<lparr> status := Failed,
                  error_message := Some (messageOr ''Unknown error occurred'' err),
                  report_path := None,
                  updated_at := eNow e,
                  completed_at := Some (eNow e) \<rparr>))"
proof (cases "db w (eJobId e)")
  case None
  then show ?thesis
    by (simp add: catchBlock_def updateStatus_def updateRow_absent logWarning_def)
next
  case (Some j)
  then show ?thesis
    by (cases j)
       (simp add: catchBlock_def updateStatus_def updateErrorMessage_def updateRow_present
        updateStatusRow_def setColumn_def Let_def)
qed

text \<open>
  Claim C5. When the \<open>try\<close> block throws, the promise is rejected with what was thrown,
  and the job table ends as follows. If the abort signal has been triggered, the table
  is as the \<open>try\<close> block left it. Otherwise the row of the job, if it is still there,
  has the status \<open>failed\<close> and carries the message of the error (\<open>Unknown error occurred\<close>
  for a thrown value that is no \<open>Error\<close>), with \<open>report_path\<close> cleared and the two time
  stamps set; every other column and every other row is unchanged.
\<close>

theorem thrown_error_is_recorded:
  assumes "tryOutcome e w = Inl err"
  shows "fst (processThreatModelingJob e w) = Inl err
         \<and> db (snd (processThreatModelingJob e w)) =
             (if aborted (afterTry e w) then db (afterTry e w)
              else case db (afterTry e w) (eJobId e) of
                     None \<Rightarrow> db (afterTry e w)
                   | Some j \<Rightarrow> (db (afterTry e w))(eJobId e \<mapsto>
                       j\<lparr> status := Failed,
                          error_message := Some (messageOr ''Unknown error occurred'' err),
                          report_path := None,
                          updated_at := eNow e,
                          completed_at := Some (eNow e) \<rparr>))"
  using assms
  by (simp add: process_cases finallyBlock_db catchBlock_db)

text \<open>The run without API configuration: the job is stored as failed with the message.\<close>

theorem thrown_error_is_recorded_witness:
  "fst (processThreatModelingJob noConfigEnv exampleWorld)
     = Inl (ErrorObj ''Anthropic API configuration not found'')
   \<and> map_option status (db (snd (processThreatModelingJob noConfigEnv exampleWorld)) ''job-1'')
       = Some Failed
   \<and> map_option error_message
         (db (snd (processThreatModelingJob noConfigEnv exampleWorld)) ''job-1'')
       = Some (Some ''Anthropic API configuration not found'')"
proof -
  have o: "tryOutcome noConfigEnv exampleWorld
           = Inl (ErrorObj ''Anthropic API configuration not found'')"
    by code_simp
  have a: "aborted (afterTry noConfigEnv exampleWorld) = False"
    by code_simp
  have j: "db (afterTry noConfigEnv exampleWorld) ''job-1''
           = Some ((newJob 0 ''job-1'' 1 ''[UPLOADED] upload.zip'' None None None None)
                    \<lparr> status := Processing, updated_at := 100 \<rparr>)"
    by code_simp
  have i: "eJobId noConfigEnv = ''job-1''"
    by (simp add: noConfigEnv_def exampleEnv_def)
  from thrown_error_is_recorded [OF o]
  show ?thesis
    by (simp add: a j i messageOr_def)
qed

section \<open>The \<open>finally\<close> block\<close>

lemma removeTree_None: "f q = None \<Longrightarrow> removeTree f p q = None"
  by (auto simp: removeTree_def)


lemma cleanWorkDir_files:
  "\<not> existsSync (files w) q \<Longrightarrow> \<not> existsSync (files (cleanWorkDir e wd w)) q"
  by (auto simp: cleanWorkDir_def rmSync_def existsSync_def logWarning_def removeTree_None)












end
